theory Spec2Isabelle
  imports Main "HOL-Library.Word" "HOL-Library.Sublist"
begin

section \<open>Type references and the arena of the builder\<close>

text \<open>
  \<^verbatim>\<open>include/swift/Reflection/TypeRefBuilder.h\<close> hands out \<^verbatim>\<open>const TypeRef *\<close>.
  A pointer is modelled by what it can designate: nothing (\<^verbatim>\<open>nullptr\<close>), the node
  that \<^verbatim>\<open>makeTypeRef\<close> stored at a position of \<^verbatim>\<open>TypeRefPool\<close>, or one of
  the three nodes that exist once per process.
\<close>

datatype Singleton = UnnamedObjCClass | UnnamedForeignClass | Opaque

datatype pointer = nullptr | Pooled nat | Static Singleton

text \<open>
  \<^verbatim>\<open>FunctionTypeFlags\<close> is declared outside this header; the builder only passes
  the value on, so it is kept as an uninterpreted number.
\<close>

type_synonym FunctionTypeFlags = nat

text \<open>
  Modelled from the spec: \<^verbatim>\<open>swift/Reflection/TypeRef.h\<close> (the node classes and
  their \<^verbatim>\<open>create\<close> functions) is not part of the sources at hand. The variants are
  those of section 3 of the specification, named after the classes the header mentions;
  a node refers to its children by pointer, as the parameters of the factory methods do.
\<close>

datatype TypeRef =
    BuiltinTypeRef string
  | NominalTypeRef string pointer
  | BoundGenericTypeRef string "pointer list" pointer
  | TupleTypeRef "pointer list" bool
  | FunctionTypeRef "pointer list" pointer FunctionTypeFlags
  | ProtocolTypeRef string string
  | ProtocolCompositionTypeRef "pointer list"
  | ExistentialMetatypeTypeRef pointer
  | MetatypeTypeRef pointer
  | GenericTypeParameterTypeRef "32 word" "32 word"
  | DependentMemberTypeRef string pointer pointer
  | UnownedStorageTypeRef pointer
  | UnmanagedStorageTypeRef pointer
  | WeakStorageTypeRef pointer
  | ObjCClassTypeRef
  | ForeignClassTypeRef
  | OpaqueTypeRef

subsection \<open>Reflection sections and the registry\<close>

text \<open>
  Modelled from the spec: \<^verbatim>\<open>swift/Reflection/Records.h\<close> (the record formats and
  their iterators) is not part of the sources at hand. A descriptor carries what section 3
  of the specification lists for it.
\<close>

record FieldDescriptor =
  MangledTypeName :: string
  Fields :: "(string \<times> string) list"

record AssociatedTypeDescriptor =
  ConformingTypeName :: string
  ProtocolTypeName :: string
  AssociatedTypes :: "(string \<times> string) list"

record BuiltinTypeDescriptor =
  TypeName :: string
  Size :: nat
  Alignment :: nat
  Stride :: nat
  HasExtraInhabitants :: bool

text \<open>
  \<^verbatim>\<open>ReflectionSection<Iterator>\<close> is a pair of addresses \<^verbatim>\<open>Begin\<close>, \<^verbatim>\<open>End\<close> and
  an iterator over the records between them. A section is modelled by the sequence of
  records its iterator yields from \<^verbatim>\<open>begin()\<close> to \<^verbatim>\<open>end()\<close>; the two generic
  sections, whose iterator is \<^verbatim>\<open>const void *\<close>, by their bytes.
\<close>

type_synonym FieldSection = "FieldDescriptor list"
type_synonym AssociatedTypeSection = "AssociatedTypeDescriptor list"
type_synonym BuiltinTypeSection = "BuiltinTypeDescriptor list"
type_synonym GenericSection = "8 word list"

record ReflectionInfo =
  ImageName :: string
  fieldmd :: FieldSection
  assocty :: AssociatedTypeSection
  builtin :: BuiltinTypeSection
  typeref :: GenericSection
  reflstr :: GenericSection

text \<open>
  The private members of \<^verbatim>\<open>TypeRefBuilder\<close>: the pool that owns every node and the
  registered images. (The third member, the \<^verbatim>\<open>TypeConverter\<close>, belongs to the layout
  component and no factory or registration method touches it.)
\<close>

record TypeRefBuilder =
  TypeRefPool :: "TypeRef list"
  ReflectionInfos :: "ReflectionInfo list"

subsection \<open>Allocation and dereference\<close>

text \<open>
  \<^verbatim>\<open>makeTypeRef\<close>: \<^verbatim>\<open>new\<close> a node, \<^verbatim>\<open>push_back\<close> it to the pool, return its
  address. The new node is the last of the pool, so its address is the pool's old size.
\<close>

definition makeTypeRef :: "TypeRef \<Rightarrow> TypeRefBuilder \<Rightarrow> pointer \<times> TypeRefBuilder" where
  "makeTypeRef TR B =
     (Pooled (length (TypeRefPool B)), B\<lparr>TypeRefPool := TypeRefPool B @ [TR]\<rparr>)"

text \<open>
  Modelled from the spec: \<^verbatim>\<open>ObjCClassTypeRef::getUnnamed\<close> is in the missing
  \<^verbatim>\<open>TypeRef.h\<close>. It yields "a process-wide singleton, not arena-allocated per call"
  (section 3); the header calls it without a builder.
\<close>

definition ObjCClassTypeRef_getUnnamed :: pointer where
  "ObjCClassTypeRef_getUnnamed = Static UnnamedObjCClass"

text \<open>
  Modelled from the spec: \<^verbatim>\<open>ForeignClassTypeRef::getUnnamed\<close> is in the missing
  \<^verbatim>\<open>TypeRef.h\<close>; a process-wide singleton as well (section 3).
\<close>

definition ForeignClassTypeRef_getUnnamed :: pointer where
  "ForeignClassTypeRef_getUnnamed = Static UnnamedForeignClass"

text \<open>
  Modelled from the spec: \<^verbatim>\<open>OpaqueTypeRef::get\<close> is in the missing \<^verbatim>\<open>TypeRef.h\<close>;
  the singleton "unknown/opaque" marker (section 3).
\<close>

definition OpaqueTypeRef_get :: pointer where
  "OpaqueTypeRef_get = Static Opaque"

text \<open>The node behind each of the three process-wide pointers.\<close>

fun singletonNode :: "Singleton \<Rightarrow> TypeRef" where
  "singletonNode UnnamedObjCClass = ObjCClassTypeRef"
| "singletonNode UnnamedForeignClass = ForeignClassTypeRef"
| "singletonNode Opaque = OpaqueTypeRef"

text \<open>
  What a pointer designates in a builder. A null pointer and an address beyond the pool
  designate nothing.
\<close>

fun deref :: "TypeRefBuilder \<Rightarrow> pointer \<Rightarrow> TypeRef option" where
  "deref B nullptr = None"
| "deref B (Pooled n) =
     (if n < length (TypeRefPool B) then Some (TypeRefPool B ! n) else None)"
| "deref B (Static k) = Some (singletonNode k)"

text \<open>
  The two ways a factory method can leave defined behaviour: \<^verbatim>\<open>isa<>\<close> applied to a
  pointer that designates no node (LLVM asserts on a null pointer), and \<^verbatim>\<open>operator*\<close>
  of an \<^verbatim>\<open>Optional\<close> that holds no value (LLVM asserts \<^verbatim>\<open>hasVal\<close>).
\<close>

datatype failure = IsaOnNoNode | OptionalHasNoValue

fun classof_ProtocolTypeRef :: "TypeRef \<Rightarrow> bool" where
  "classof_ProtocolTypeRef (ProtocolTypeRef moduleName protocolName) = True"
| "classof_ProtocolTypeRef _ = False"

definition isa_ProtocolTypeRef :: "TypeRefBuilder \<Rightarrow> pointer \<Rightarrow> failure + bool" where
  "isa_ProtocolTypeRef B p =
     (case deref B p of
        None \<Rightarrow> Inl IsaOnNoNode
      | Some TR \<Rightarrow> Inr (classof_ProtocolTypeRef TR))"

section \<open>The factory methods\<close>

text \<open>
  Every \<^verbatim>\<open>XTypeRef::create(*this, args...)\<close> of the missing \<^verbatim>\<open>TypeRef.h\<close> is
  modelled from the spec as \<^verbatim>\<open>makeTypeRef<XTypeRef>(args...)\<close> on the builder it is
  given: it "allocates a node from the arena and returns a borrowed reference" and
  "performs no deduplication" (section 4.3).
\<close>

definition createBuiltinType ::
  "TypeRefBuilder \<Rightarrow> string \<Rightarrow> pointer \<times> TypeRefBuilder" where
  "createBuiltinType B mangledName = makeTypeRef (BuiltinTypeRef mangledName) B"

text \<open>The overload of \<^verbatim>\<open>createNominalTypeDecl\<close> that takes a mangled name.\<close>

definition createNominalTypeDecl :: "string \<Rightarrow> string option" where
  "createNominalTypeDecl mangledName = Some mangledName"

definition createNominalType ::
  "TypeRefBuilder \<Rightarrow> string option \<Rightarrow> pointer \<Rightarrow> failure + pointer \<times> TypeRefBuilder" where
  "createNominalType B mangledName parent =
     (case mangledName of
        None \<Rightarrow> Inl OptionalHasNoValue
      | Some name \<Rightarrow> Inr (makeTypeRef (NominalTypeRef name parent) B))"

definition createBoundGenericType ::
  "TypeRefBuilder \<Rightarrow> string option \<Rightarrow> pointer list \<Rightarrow> pointer
     \<Rightarrow> failure + pointer \<times> TypeRefBuilder" where
  "createBoundGenericType B mangledName args parent =
     (case mangledName of
        None \<Rightarrow> Inl OptionalHasNoValue
      | Some name \<Rightarrow> Inr (makeTypeRef (BoundGenericTypeRef name args parent) B))"

definition createTupleType ::
  "TypeRefBuilder \<Rightarrow> pointer list \<Rightarrow> bool \<Rightarrow> pointer \<times> TypeRefBuilder" where
  "createTupleType B elements isVariadic = makeTypeRef (TupleTypeRef elements isVariadic) B"

definition createFunctionType ::
  "TypeRefBuilder \<Rightarrow> pointer list \<Rightarrow> bool list \<Rightarrow> pointer \<Rightarrow> FunctionTypeFlags
     \<Rightarrow> pointer \<times> TypeRefBuilder" where
  "createFunctionType B args inOutArgs result flags =
     makeTypeRef (FunctionTypeRef args result flags) B"

definition createProtocolType ::
  "TypeRefBuilder \<Rightarrow> string \<Rightarrow> string \<Rightarrow> pointer \<times> TypeRefBuilder" where
  "createProtocolType B moduleName protocolName =
     makeTypeRef (ProtocolTypeRef moduleName protocolName) B"

text \<open>
  The loop of \<^verbatim>\<open>createProtocolCompositionType\<close>: \<open>Inr False\<close> is its
  \<^verbatim>\<open>return nullptr\<close>, \<open>Inr True\<close> is falling out of the loop.
\<close>

fun allProtocols :: "TypeRefBuilder \<Rightarrow> pointer list \<Rightarrow> failure + bool" where
  "allProtocols B [] = Inr True"
| "allProtocols B (protocol # rest) =
     (case isa_ProtocolTypeRef B protocol of
        Inl e \<Rightarrow> Inl e
      | Inr False \<Rightarrow> Inr False
      | Inr True \<Rightarrow> allProtocols B rest)"

definition createProtocolCompositionType ::
  "TypeRefBuilder \<Rightarrow> pointer list \<Rightarrow> failure + pointer \<times> TypeRefBuilder" where
  "createProtocolCompositionType B protocols =
     (case allProtocols B protocols of
        Inl e \<Rightarrow> Inl e
      | Inr False \<Rightarrow> Inr (nullptr, B)
      | Inr True \<Rightarrow> Inr (makeTypeRef (ProtocolCompositionTypeRef protocols) B))"

definition createExistentialMetatypeType ::
  "TypeRefBuilder \<Rightarrow> pointer \<Rightarrow> pointer \<times> TypeRefBuilder" where
  "createExistentialMetatypeType B instance = makeTypeRef (ExistentialMetatypeTypeRef instance) B"

definition createMetatypeType ::
  "TypeRefBuilder \<Rightarrow> pointer \<Rightarrow> pointer \<times> TypeRefBuilder" where
  "createMetatypeType B instance = makeTypeRef (MetatypeTypeRef instance) B"

definition createGenericTypeParameterType ::
  "TypeRefBuilder \<Rightarrow> 32 word \<Rightarrow> 32 word \<Rightarrow> pointer \<times> TypeRefBuilder" where
  "createGenericTypeParameterType B depth index =
     makeTypeRef (GenericTypeParameterTypeRef depth index) B"

definition createDependentMemberType ::
  "TypeRefBuilder \<Rightarrow> string \<Rightarrow> pointer \<Rightarrow> pointer \<Rightarrow> failure + pointer \<times> TypeRefBuilder" where
  "createDependentMemberType B member base protocol =
     (case isa_ProtocolTypeRef B protocol of
        Inl e \<Rightarrow> Inl e
      | Inr False \<Rightarrow> Inr (nullptr, B)
      | Inr True \<Rightarrow> Inr (makeTypeRef (DependentMemberTypeRef member base protocol) B))"

definition createUnownedStorageType ::
  "TypeRefBuilder \<Rightarrow> pointer \<Rightarrow> pointer \<times> TypeRefBuilder" where
  "createUnownedStorageType B base = makeTypeRef (UnownedStorageTypeRef base) B"

definition createUnmanagedStorageType ::
  "TypeRefBuilder \<Rightarrow> pointer \<Rightarrow> pointer \<times> TypeRefBuilder" where
  "createUnmanagedStorageType B base = makeTypeRef (UnmanagedStorageTypeRef base) B"

definition createWeakStorageType ::
  "TypeRefBuilder \<Rightarrow> pointer \<Rightarrow> pointer \<times> TypeRefBuilder" where
  "createWeakStorageType B base = makeTypeRef (WeakStorageTypeRef base) B"

definition getUnnamedObjCClassType :: "TypeRefBuilder \<Rightarrow> pointer \<times> TypeRefBuilder" where
  "getUnnamedObjCClassType B = (ObjCClassTypeRef_getUnnamed, B)"

definition getUnnamedForeignClassType :: "TypeRefBuilder \<Rightarrow> pointer \<times> TypeRefBuilder" where
  "getUnnamedForeignClassType B = (ForeignClassTypeRef_getUnnamed, B)"

definition getOpaqueType :: "TypeRefBuilder \<Rightarrow> pointer \<times> TypeRefBuilder" where
  "getOpaqueType B = (OpaqueTypeRef_get, B)"

subsection \<open>Registration\<close>

definition addReflectionInfo :: "TypeRefBuilder \<Rightarrow> ReflectionInfo \<Rightarrow> TypeRefBuilder" where
  "addReflectionInfo B I = B\<lparr>ReflectionInfos := ReflectionInfos B @ [I]\<rparr>"


subsection \<open>A lifetime of the builder\<close>

text \<open>
  The public methods whose bodies the header gives, as calls; a client drives the builder
  by a sequence of them. A call that leaves defined behaviour ends the run.
\<close>

datatype Call =
    CreateBuiltinType string
  | CreateNominalType "string option" pointer
  | CreateBoundGenericType "string option" "pointer list" pointer
  | CreateTupleType "pointer list" bool
  | CreateFunctionType "pointer list" "bool list" pointer FunctionTypeFlags
  | CreateProtocolType string string
  | CreateProtocolCompositionType "pointer list"
  | CreateExistentialMetatypeType pointer
  | CreateMetatypeType pointer
  | CreateGenericTypeParameterType "32 word" "32 word"
  | CreateDependentMemberType string pointer pointer
  | CreateUnownedStorageType pointer
  | CreateUnmanagedStorageType pointer
  | CreateWeakStorageType pointer
  | GetUnnamedObjCClassType
  | GetUnnamedForeignClassType
  | GetOpaqueType
  | AddReflectionInfo ReflectionInfo

fun call :: "Call \<Rightarrow> TypeRefBuilder \<Rightarrow> failure + TypeRefBuilder" where
  "call (CreateBuiltinType mangledName) B = Inr (snd (createBuiltinType B mangledName))"
| "call (CreateNominalType mangledName parent) B =
     map_sum id snd (createNominalType B mangledName parent)"
| "call (CreateBoundGenericType mangledName args parent) B =
     map_sum id snd (createBoundGenericType B mangledName args parent)"
| "call (CreateTupleType elements isVariadic) B =
     Inr (snd (createTupleType B elements isVariadic))"
| "call (CreateFunctionType args inOutArgs result flags) B =
     Inr (snd (createFunctionType B args inOutArgs result flags))"
| "call (CreateProtocolType moduleName protocolName) B =
     Inr (snd (createProtocolType B moduleName protocolName))"
| "call (CreateProtocolCompositionType protocols) B =
     map_sum id snd (createProtocolCompositionType B protocols)"
| "call (CreateExistentialMetatypeType instance) B =
     Inr (snd (createExistentialMetatypeType B instance))"
| "call (CreateMetatypeType instance) B = Inr (snd (createMetatypeType B instance))"
| "call (CreateGenericTypeParameterType depth index) B =
     Inr (snd (createGenericTypeParameterType B depth index))"
| "call (CreateDependentMemberType member base protocol) B =
     map_sum id snd (createDependentMemberType B member base protocol)"
| "call (CreateUnownedStorageType base) B = Inr (snd (createUnownedStorageType B base))"
| "call (CreateUnmanagedStorageType base) B = Inr (snd (createUnmanagedStorageType B base))"
| "call (CreateWeakStorageType base) B = Inr (snd (createWeakStorageType B base))"
| "call GetUnnamedObjCClassType B = Inr (snd (getUnnamedObjCClassType B))"
| "call GetUnnamedForeignClassType B = Inr (snd (getUnnamedForeignClassType B))"
| "call GetOpaqueType B = Inr (snd (getOpaqueType B))"
| "call (AddReflectionInfo I) B = Inr (addReflectionInfo B I)"

fun run :: "Call list \<Rightarrow> TypeRefBuilder \<Rightarrow> failure + TypeRefBuilder" where
  "run [] B = Inr B"
| "run (c # cs) B = (case call c B of Inl e \<Rightarrow> Inl e | Inr B' \<Rightarrow> run cs B')"

section \<open>The resolver\<close>

text \<open>
  Modelled from the spec: the header only declares \<^verbatim>\<open>getFieldTypeInfo\<close>,
  \<^verbatim>\<open>getFieldTypeRefs\<close>, \<^verbatim>\<open>getDependentMemberTypeRef\<close> and
  \<^verbatim>\<open>getBuiltinTypeInfo\<close>; their bodies (\<^verbatim>\<open>TypeRefBuilder.cpp\<close>) and the
  substitution on type references (\<^verbatim>\<open>TypeRef.cpp\<close>) are not part of the sources at
  hand. The definitions of this section follow section 4.4 of the specification, which
  speaks of a type reference by its structure (section 3): the variant and its
  components, the children being type references themselves.
\<close>

datatype TypeStructure =
    Builtin string
  | Nominal string "TypeStructure option"
  | BoundGeneric string "TypeStructure list" "TypeStructure option"
  | Tuple "TypeStructure list" bool
  | Function "TypeStructure list" TypeStructure FunctionTypeFlags
  | Protocol string string
  | ProtocolComposition "TypeStructure list"
  | ExistentialMetatype TypeStructure
  | Metatype TypeStructure
  | GenericTypeParameter "32 word" "32 word"
  | DependentMember string TypeStructure TypeStructure
  | UnownedStorage TypeStructure
  | UnmanagedStorage TypeStructure
  | WeakStorage TypeStructure
  | ObjCClassPlaceholder
  | ForeignClassPlaceholder
  | OpaqueType

text \<open>
  Modelled from the spec: the error taxonomy of section 7, for the three ways a query can
  end without a result (a lookup miss, a usage error, malformed metadata).
\<close>

datatype ResolveError = LookupMiss | UsageError | MalformedMetadata

text \<open>
  Modelled from the spec: a scan visits the registered images in registration order and,
  within an image, the records of the section in the section's order; the first record
  that matches wins (section 4.2).
\<close>

fun scan :: "('r \<Rightarrow> bool) \<Rightarrow> 'r list list \<Rightarrow> 'r option" where
  "scan matches [] = None"
| "scan matches (records # rest) =
     (case find matches records of
        Some r \<Rightarrow> Some r
      | None \<Rightarrow> scan matches rest)"

text \<open>
  Modelled from the spec: "derive the nominal type's mangled name from \<open>TR\<close> (for
  \<open>Nominal\<close> and \<open>BoundGeneric\<close> variants only -- other variants are a usage error)".
\<close>

fun nominalName :: "TypeStructure \<Rightarrow> string option" where
  "nominalName (Nominal mangledName parent) = Some mangledName"
| "nominalName (BoundGeneric mangledName args parent) = Some mangledName"
| "nominalName _ = None"

text \<open>
  Modelled from the spec: "scan all registered field sections, in registration order, for
  the first FieldDescriptor whose owning mangled name equals it; return that descriptor
  (or not found)".
\<close>

definition getFieldTypeInfo ::
  "TypeRefBuilder \<Rightarrow> TypeStructure \<Rightarrow> ResolveError + FieldDescriptor" where
  "getFieldTypeInfo B TR =
     (case nominalName TR of
        None \<Rightarrow> Inl UsageError
      | Some name \<Rightarrow>
          (case scan (\<lambda>FD. MangledTypeName FD = name) (map fieldmd (ReflectionInfos B)) of
             None \<Rightarrow> Inl LookupMiss
           | Some FD \<Rightarrow> Inr FD))"

text \<open>
  Modelled from the spec: "requires \<open>TR\<close> to be a \<open>Builtin\<close> (or other
  primitive-carrying) variant; derive its mangled name; scan builtin-type sections for
  the first BuiltinTypeDescriptor with matching name; return it or not found". The
  specification names no other primitive-carrying variant, so \<open>Builtin\<close> is the only one
  here.
\<close>

definition getBuiltinTypeInfo ::
  "TypeRefBuilder \<Rightarrow> TypeStructure \<Rightarrow> ResolveError + BuiltinTypeDescriptor" where
  "getBuiltinTypeInfo B TR =
     (case TR of
        Builtin mangledName \<Rightarrow>
          (case scan (\<lambda>BD. TypeName BD = mangledName) (map builtin (ReflectionInfos B)) of
             None \<Rightarrow> Inl LookupMiss
           | Some BD \<Rightarrow> Inr BD)
      | _ \<Rightarrow> Inl UsageError)"

text \<open>
  Modelled from the spec: name decoding is an external collaborator (section 1), so every
  query that decodes takes the decoder as its first argument, from a mangled name to the
  structure of the type it names, or nothing for a name that does not decode.

  "Scan associated-type sections for the first AssociatedTypeDescriptor whose (conforming
  type, protocol) pair matches; within it, look up the substitute mangled name for
  \<open>dependentMember\<close>'s member name; decode that substitute into a TypeRef and return it (or
  report resolution failure if no descriptor or no matching member name is found)". A
  descriptor names its protocol by mangled name; it matches when that name decodes to the
  protocol the dependent member carries.
\<close>

definition matchesConformance ::
  "(string \<Rightarrow> TypeStructure option) \<Rightarrow> string \<Rightarrow> TypeStructure
     \<Rightarrow> AssociatedTypeDescriptor \<Rightarrow> bool" where
  "matchesConformance decode mangledTypeName protocol AD \<longleftrightarrow>
     ConformingTypeName AD = mangledTypeName \<and> decode (ProtocolTypeName AD) = Some protocol"

text \<open>
  Modelled from the spec: \<^verbatim>\<open>getDependentMemberTypeRef\<close>, by the paragraph quoted above.
  The concrete mangled type name stands in for the base of the dependent member.
\<close>

definition getDependentMemberTypeRef ::
  "(string \<Rightarrow> TypeStructure option) \<Rightarrow> TypeRefBuilder \<Rightarrow> string \<Rightarrow> TypeStructure
     \<Rightarrow> ResolveError + TypeStructure" where
  "getDependentMemberTypeRef decode B mangledTypeName DependentMemberTR =
     (case DependentMemberTR of
        DependentMember member base (Protocol moduleName protocolName) \<Rightarrow>
          (case scan (matchesConformance decode mangledTypeName (Protocol moduleName protocolName))
                  (map assocty (ReflectionInfos B)) of
             None \<Rightarrow> Inl LookupMiss
           | Some AD \<Rightarrow>
               (case map_of (AssociatedTypes AD) member of
                  None \<Rightarrow> Inl LookupMiss
                | Some substitute \<Rightarrow>
                    (case decode substitute of
                       None \<Rightarrow> Inl MalformedMetadata
                     | Some T \<Rightarrow> Inr T)))
      | _ \<Rightarrow> Inl UsageError)"


text \<open>
  Modelled from the spec: "the bound generic context established by \<open>TR\<close>", into which a
  \<open>GenericTypeParameter(depth, index)\<close> is "a de Bruijn-style coordinate" (section 3). The
  context has one level for each \<open>BoundGeneric\<close> on the chain of parents that ends in
  \<open>TR\<close>, the outermost first and \<open>TR\<close>'s own argument list last; a \<open>Nominal\<close> on the chain
  binds no parameter and adds no level.
\<close>

fun genericContext :: "TypeStructure \<Rightarrow> TypeStructure list list" where
  "genericContext (BoundGeneric mangledName args parent) =
     (case parent of None \<Rightarrow> [] | Some P \<Rightarrow> genericContext P) @ [args]"
| "genericContext (Nominal mangledName parent) =
     (case parent of None \<Rightarrow> [] | Some P \<Rightarrow> genericContext P)"
| "genericContext _ = []"

text \<open>
  Modelled from the spec: "depth/index addressing into the bound generic context": the
  depth selects the level, the index the argument within the level. A coordinate beyond
  the context addresses nothing.
\<close>

definition argumentAt ::
  "TypeStructure list list \<Rightarrow> 32 word \<Rightarrow> 32 word \<Rightarrow> TypeStructure option" where
  "argumentAt ctxt depth index =
     (if unat depth < length ctxt \<and> unat index < length (ctxt ! unat depth)
      then Some (ctxt ! unat depth ! unat index) else None)"

text \<open>
  Modelled from the spec: "substitute every \<open>GenericTypeParameter(depth, index)\<close> occurring
  in the decoded field type with the corresponding argument". The substitution has no
  result when a parameter of the type has no corresponding argument, so that no result
  carries a parameter of the field type.
\<close>

fun subst :: "TypeStructure list list \<Rightarrow> TypeStructure \<Rightarrow> TypeStructure option" where
  "subst ctxt (Builtin mangledName) = Some (Builtin mangledName)"
| "subst ctxt (Nominal mangledName parent) =
     (case parent of
        None \<Rightarrow> Some (Nominal mangledName None)
      | Some P \<Rightarrow> map_option (\<lambda>P'. Nominal mangledName (Some P')) (subst ctxt P))"
| "subst ctxt (BoundGeneric mangledName params parent) =
     (case those (map (subst ctxt) params) of
        None \<Rightarrow> None
      | Some params' \<Rightarrow>
          (case parent of
             None \<Rightarrow> Some (BoundGeneric mangledName params' None)
           | Some P \<Rightarrow>
               map_option (\<lambda>P'. BoundGeneric mangledName params' (Some P')) (subst ctxt P)))"
| "subst ctxt (Tuple elements isVariadic) =
     map_option (\<lambda>elements'. Tuple elements' isVariadic) (those (map (subst ctxt) elements))"
| "subst ctxt (Function params result flags) =
     (case those (map (subst ctxt) params) of
        None \<Rightarrow> None
      | Some params' \<Rightarrow>
          map_option (\<lambda>result'. Function params' result' flags) (subst ctxt result))"
| "subst ctxt (Protocol moduleName protocolName) = Some (Protocol moduleName protocolName)"
| "subst ctxt (ProtocolComposition protocols) =
     map_option ProtocolComposition (those (map (subst ctxt) protocols))"
| "subst ctxt (ExistentialMetatype instance) =
     map_option ExistentialMetatype (subst ctxt instance)"
| "subst ctxt (Metatype instance) = map_option Metatype (subst ctxt instance)"
| "subst ctxt (GenericTypeParameter depth index) = argumentAt ctxt depth index"
| "subst ctxt (DependentMember member base protocol) =
     (case subst ctxt base of
        None \<Rightarrow> None
      | Some base' \<Rightarrow>
          map_option (\<lambda>protocol'. DependentMember member base' protocol')
            (subst ctxt protocol))"
| "subst ctxt (UnownedStorage base) = map_option UnownedStorage (subst ctxt base)"
| "subst ctxt (UnmanagedStorage base) = map_option UnmanagedStorage (subst ctxt base)"
| "subst ctxt (WeakStorage base) = map_option WeakStorage (subst ctxt base)"
| "subst ctxt ObjCClassPlaceholder = Some ObjCClassPlaceholder"
| "subst ctxt ForeignClassPlaceholder = Some ForeignClassPlaceholder"
| "subst ctxt OpaqueType = Some OpaqueType"

text \<open>
  Modelled from the spec: "if \<open>TR\<close> is a \<open>BoundGeneric\<close>, substitute", in the generic context
  that \<open>TR\<close> establishes; for any other \<open>TR\<close> the decoded field type is the resolved one.
\<close>

fun resolveFieldType :: "TypeStructure \<Rightarrow> TypeStructure \<Rightarrow> TypeStructure option" where
  "resolveFieldType (BoundGeneric mangledName args parent) T =
     subst (genericContext (BoundGeneric mangledName args parent)) T"
| "resolveFieldType TR T = Some T"

text \<open>
  Modelled from the spec: "for each field entry in \<open>FD\<close>, decode its mangled type name into
  a TypeRef; [substitute]; collect \<open>(fieldName, resolvedTypeRef)\<close> pairs in
  field-declaration order". A field whose type name does not decode, or whose type has a
  parameter that the context of \<open>TR\<close> does not bind, is malformed metadata (section 7).
\<close>

fun resolveFields ::
  "(string \<Rightarrow> TypeStructure option) \<Rightarrow> TypeStructure \<Rightarrow> (string \<times> string) list
     \<Rightarrow> ResolveError + (string \<times> TypeStructure) list" where
  "resolveFields decode TR [] = Inr []"
| "resolveFields decode TR ((fieldName, mangledTypeName) # rest) =
     (case decode mangledTypeName of
        None \<Rightarrow> Inl MalformedMetadata
      | Some T \<Rightarrow>
          (case resolveFieldType TR T of
             None \<Rightarrow> Inl MalformedMetadata
           | Some T' \<Rightarrow>
               (case resolveFields decode TR rest of
                  Inl e \<Rightarrow> Inl e
                | Inr resolved \<Rightarrow> Inr ((fieldName, T') # resolved))))"

text \<open>
  Modelled from the spec: \<^verbatim>\<open>getFieldTypeRefs(TR, FD)\<close> is the loop above over the field
  entries of \<open>FD\<close>.
\<close>

definition getFieldTypeRefs ::
  "(string \<Rightarrow> TypeStructure option) \<Rightarrow> TypeStructure \<Rightarrow> FieldDescriptor
     \<Rightarrow> ResolveError + (string \<times> TypeStructure) list" where
  "getFieldTypeRefs decode TR FD = resolveFields decode TR (Fields FD)"

text \<open>
  The statement "every generic parameter occurring in \<open>T\<close> is replaced by the argument at
  its coordinate", as a relation between a type and its resolved form: the two agree
  everywhere but at the parameters of \<open>T\<close>, where the resolved form has the argument that
  the coordinate addresses in the context.
\<close>

inductive replaced ::
  "TypeStructure list list \<Rightarrow> TypeStructure \<Rightarrow> TypeStructure \<Rightarrow> bool"
  for ctxt :: "TypeStructure list list" where
  "argumentAt ctxt depth index = Some argument \<Longrightarrow>
     replaced ctxt (GenericTypeParameter depth index) argument"
| "replaced ctxt (Builtin mangledName) (Builtin mangledName)"
| "rel_option (replaced ctxt) parent parent' \<Longrightarrow>
     replaced ctxt (Nominal mangledName parent) (Nominal mangledName parent')"
| "list_all2 (replaced ctxt) params params' \<Longrightarrow>
   rel_option (replaced ctxt) parent parent' \<Longrightarrow>
     replaced ctxt (BoundGeneric mangledName params parent)
       (BoundGeneric mangledName params' parent')"
| "list_all2 (replaced ctxt) elements elements' \<Longrightarrow>
     replaced ctxt (Tuple elements isVariadic) (Tuple elements' isVariadic)"
| "list_all2 (replaced ctxt) params params' \<Longrightarrow> replaced ctxt result result' \<Longrightarrow>
     replaced ctxt (Function params result flags) (Function params' result' flags)"
| "replaced ctxt (Protocol moduleName protocolName) (Protocol moduleName protocolName)"
| "list_all2 (replaced ctxt) protocols protocols' \<Longrightarrow>
     replaced ctxt (ProtocolComposition protocols) (ProtocolComposition protocols')"
| "replaced ctxt instance instance' \<Longrightarrow>
     replaced ctxt (ExistentialMetatype instance) (ExistentialMetatype instance')"
| "replaced ctxt instance instance' \<Longrightarrow>
     replaced ctxt (Metatype instance) (Metatype instance')"
| "replaced ctxt base base' \<Longrightarrow> replaced ctxt protocol protocol' \<Longrightarrow>
     replaced ctxt (DependentMember member base protocol)
       (DependentMember member base' protocol')"
| "replaced ctxt base base' \<Longrightarrow>
     replaced ctxt (UnownedStorage base) (UnownedStorage base')"
| "replaced ctxt base base' \<Longrightarrow>
     replaced ctxt (UnmanagedStorage base) (UnmanagedStorage base')"
| "replaced ctxt base base' \<Longrightarrow> replaced ctxt (WeakStorage base) (WeakStorage base')"
| "replaced ctxt ObjCClassPlaceholder ObjCClassPlaceholder"
| "replaced ctxt ForeignClassPlaceholder ForeignClassPlaceholder"
| "replaced ctxt OpaqueType OpaqueType"

subsection \<open>The queries on the builder\<close>

text \<open>
  Modelled from the spec: the header declares the queries on pointers
  (\<^verbatim>\<open>const TypeRef *\<close>), and their results "remain owned by" the arena (section 2). The
  structure of section 3 that a pointer designates is read off the pool: the variant and
  components of the node, with the structures that its children designate. A node is
  allocated after its children, so the structures are computed along the pool, each node
  from those before it; a null parent is an absent parent, and a node with a child that
  designates no structure designates none.
\<close>

fun placeholder :: "Singleton \<Rightarrow> TypeStructure" where
  "placeholder UnnamedObjCClass = ObjCClassPlaceholder"
| "placeholder UnnamedForeignClass = ForeignClassPlaceholder"
| "placeholder Opaque = OpaqueType"

text \<open>
  Modelled from the spec: what a pointer designates, given the structures of the nodes of
  the pool computed so far; each of the three process-wide pointers designates its
  placeholder.
\<close>

fun designated :: "TypeStructure option list \<Rightarrow> pointer \<Rightarrow> TypeStructure option" where
  "designated table nullptr = None"
| "designated table (Pooled n) = (if n < length table then table ! n else None)"
| "designated table (Static k) = Some (placeholder k)"

text \<open>
  Modelled from the spec: the structure of one node (section 3), given what its children
  designate.
\<close>

fun nodeStructure ::
  "(pointer \<Rightarrow> TypeStructure option) \<Rightarrow> TypeRef \<Rightarrow> TypeStructure option" where
  "nodeStructure child (BuiltinTypeRef mangledName) = Some (Builtin mangledName)"
| "nodeStructure child (NominalTypeRef mangledName parent) =
     (if parent = nullptr then Some (Nominal mangledName None)
      else map_option (\<lambda>P. Nominal mangledName (Some P)) (child parent))"
| "nodeStructure child (BoundGenericTypeRef mangledName args parent) =
     (case those (map child args) of
        None \<Rightarrow> None
      | Some args' \<Rightarrow>
          (if parent = nullptr then Some (BoundGeneric mangledName args' None)
           else map_option (\<lambda>P. BoundGeneric mangledName args' (Some P)) (child parent)))"
| "nodeStructure child (TupleTypeRef elements isVariadic) =
     map_option (\<lambda>elements'. Tuple elements' isVariadic) (those (map child elements))"
| "nodeStructure child (FunctionTypeRef args result flags) =
     (case those (map child args) of
        None \<Rightarrow> None
      | Some args' \<Rightarrow> map_option (\<lambda>result'. Function args' result' flags) (child result))"
| "nodeStructure child (ProtocolTypeRef moduleName protocolName) =
     Some (Protocol moduleName protocolName)"
| "nodeStructure child (ProtocolCompositionTypeRef protocols) =
     map_option ProtocolComposition (those (map child protocols))"
| "nodeStructure child (ExistentialMetatypeTypeRef instance) =
     map_option ExistentialMetatype (child instance)"
| "nodeStructure child (MetatypeTypeRef instance) = map_option Metatype (child instance)"
| "nodeStructure child (GenericTypeParameterTypeRef depth index) =
     Some (GenericTypeParameter depth index)"
| "nodeStructure child (DependentMemberTypeRef member base protocol) =
     (case child base of
        None \<Rightarrow> None
      | Some base' \<Rightarrow> map_option (DependentMember member base') (child protocol))"
| "nodeStructure child (UnownedStorageTypeRef base) = map_option UnownedStorage (child base)"
| "nodeStructure child (UnmanagedStorageTypeRef base) =
     map_option UnmanagedStorage (child base)"
| "nodeStructure child (WeakStorageTypeRef base) = map_option WeakStorage (child base)"
| "nodeStructure child ObjCClassTypeRef = Some ObjCClassPlaceholder"
| "nodeStructure child ForeignClassTypeRef = Some ForeignClassPlaceholder"
| "nodeStructure child OpaqueTypeRef = Some OpaqueType"

text \<open>
  Modelled from the spec: the structures of the nodes of a pool, in the order of
  allocation, each computed from those of the nodes allocated before it.
\<close>

definition structures :: "TypeRef list \<Rightarrow> TypeStructure option list" where
  "structures pool =
     foldl (\<lambda>table node. table @ [nodeStructure (designated table) node]) [] pool"

text \<open>
  Modelled from the spec: the structure that a pointer designates in a builder.
\<close>

definition structureOf :: "TypeRefBuilder \<Rightarrow> pointer \<Rightarrow> TypeStructure option" where
  "structureOf B p = designated (structures (TypeRefPool B)) p"

text \<open>
  Modelled from the spec: the three queries as the header declares them, each with the
  pointer (and name) it is asked about, and what each hands back: a descriptor, or a
  pointer to the resolved type, or one of the errors of section 7.
\<close>

datatype Query =
    GetFieldTypeInfo pointer
  | GetDependentMemberTypeRef string pointer
  | GetBuiltinTypeInfo pointer

text \<open>
  Modelled from the spec: what a query hands back.
\<close>

datatype Answer =
    FieldTypeInfo "ResolveError + FieldDescriptor"
  | DependentMemberType "ResolveError + pointer"
  | BuiltinTypeInfo "ResolveError + BuiltinTypeDescriptor"

text \<open>
  Modelled from the spec: the pointer that a query is asked about.
\<close>

fun subject :: "Query \<Rightarrow> pointer" where
  "subject (GetFieldTypeInfo TR) = TR"
| "subject (GetDependentMemberTypeRef mangledTypeName DependentMemberTR) = DependentMemberTR"
| "subject (GetBuiltinTypeInfo TR) = TR"

text \<open>
  Modelled from the spec: a query on the builder. It reads the structure that its pointer
  designates (a pointer that designates none is a usage error) and answers as section 4.4
  says. The type that \<^verbatim>\<open>getDependentMemberTypeRef\<close> resolves is built in the arena: "the
  decoder (external) and the factory layer build a reference" (section 2); that
  collaborator is the argument \<open>build\<close>, from the decoded structure and the builder to the
  pointer and the builder after it. The two other queries have no type to build and
  leave the builder as it is.
\<close>

fun ask ::
  "(string \<Rightarrow> TypeStructure option)
     \<Rightarrow> (TypeStructure \<Rightarrow> TypeRefBuilder \<Rightarrow> pointer \<times> TypeRefBuilder)
     \<Rightarrow> Query \<Rightarrow> TypeRefBuilder \<Rightarrow> Answer \<times> TypeRefBuilder" where
  "ask decode build (GetFieldTypeInfo TR) B =
     (FieldTypeInfo
        (case structureOf B TR of
           None \<Rightarrow> Inl UsageError
         | Some T \<Rightarrow> getFieldTypeInfo B T), B)"
| "ask decode build (GetDependentMemberTypeRef mangledTypeName DependentMemberTR) B =
     (case structureOf B DependentMemberTR of
        None \<Rightarrow> (DependentMemberType (Inl UsageError), B)
      | Some T \<Rightarrow>
          (case getDependentMemberTypeRef decode B mangledTypeName T of
             Inl e \<Rightarrow> (DependentMemberType (Inl e), B)
           | Inr resolved \<Rightarrow>
               (case build resolved B of (p, B') \<Rightarrow> (DependentMemberType (Inr p), B'))))"
| "ask decode build (GetBuiltinTypeInfo TR) B =
     (BuiltinTypeInfo
        (case structureOf B TR of
           None \<Rightarrow> Inl UsageError
         | Some T \<Rightarrow> getBuiltinTypeInfo B T), B)"

text \<open>
  Modelled from the spec: a sequence of queries, each on the builder that the one before
  it left.
\<close>

fun askAll ::
  "(string \<Rightarrow> TypeStructure option)
     \<Rightarrow> (TypeStructure \<Rightarrow> TypeRefBuilder \<Rightarrow> pointer \<times> TypeRefBuilder)
     \<Rightarrow> Query list \<Rightarrow> TypeRefBuilder \<Rightarrow> Answer list \<times> TypeRefBuilder" where
  "askAll decode build [] B = ([], B)"
| "askAll decode build (q # qs) B =
     (case ask decode build q B of (a, B1) \<Rightarrow>
        (case askAll decode build qs B1 of (answers, B2) \<Rightarrow> (a # answers, B2)))"

section \<open>Notions used in the statements\<close>

text \<open>A pointer designates a node of the \<^verbatim>\<open>Protocol\<close> variant.\<close>

definition designatesProtocol :: "TypeRefBuilder \<Rightarrow> pointer \<Rightarrow> bool" where
  "designatesProtocol B p =
     (case deref B p of None \<Rightarrow> False | Some TR \<Rightarrow> classof_ProtocolTypeRef TR)"

text \<open>
  \<open>AD\<close> is the first registered descriptor of the conformance: it matches, no descriptor of
  an image registered earlier matches, and none before it in its own section does.
\<close>

definition firstConformance ::
  "(string \<Rightarrow> TypeStructure option) \<Rightarrow> TypeRefBuilder \<Rightarrow> string \<Rightarrow> TypeStructure
     \<Rightarrow> AssociatedTypeDescriptor \<Rightarrow> bool" where
  "firstConformance decode B mangledTypeName protocol AD \<longleftrightarrow>
     (\<exists>earlier I later before after.
        ReflectionInfos B = earlier @ I # later
        \<and> assocty I = before @ AD # after
        \<and> matchesConformance decode mangledTypeName protocol AD
        \<and> (\<forall>I' \<in> set earlier. \<forall>AD' \<in> set (assocty I').
              \<not> matchesConformance decode mangledTypeName protocol AD')
        \<and> (\<forall>AD' \<in> set before. \<not> matchesConformance decode mangledTypeName protocol AD'))"

text \<open>The coordinates of the generic parameters that occur in a type, left to right.\<close>

fun parameters :: "TypeStructure \<Rightarrow> (32 word \<times> 32 word) list" where
  "parameters (Builtin mangledName) = []"
| "parameters (Nominal mangledName parent) =
     (case parent of None \<Rightarrow> [] | Some P \<Rightarrow> parameters P)"
| "parameters (BoundGeneric mangledName params parent) =
     concat (map parameters params) @ (case parent of None \<Rightarrow> [] | Some P \<Rightarrow> parameters P)"
| "parameters (Tuple elements isVariadic) = concat (map parameters elements)"
| "parameters (Function params result flags) =
     concat (map parameters params) @ parameters result"
| "parameters (Protocol moduleName protocolName) = []"
| "parameters (ProtocolComposition protocols) = concat (map parameters protocols)"
| "parameters (ExistentialMetatype instance) = parameters instance"
| "parameters (Metatype instance) = parameters instance"
| "parameters (GenericTypeParameter depth index) = [(depth, index)]"
| "parameters (DependentMember member base protocol) = parameters base @ parameters protocol"
| "parameters (UnownedStorage base) = parameters base"
| "parameters (UnmanagedStorage base) = parameters base"
| "parameters (WeakStorage base) = parameters base"
| "parameters ObjCClassPlaceholder = []"
| "parameters ForeignClassPlaceholder = []"
| "parameters OpaqueType = []"


text \<open>A generic context has an argument at a coordinate.\<close>

definition hasArgument :: "TypeStructure list list \<Rightarrow> 32 word \<times> 32 word \<Rightarrow> bool" where
  "hasArgument ctxt coordinate \<longleftrightarrow>
     argumentAt ctxt (fst coordinate) (snd coordinate) \<noteq> None"

text \<open>
  What an answer says: the descriptor or the error as it is, and of a pointer the
  structure that it designates in the builder the query left.
\<close>

datatype Outcome =
    FieldTypeInfoIs "ResolveError + FieldDescriptor"
  | TypeIs "ResolveError + TypeStructure option"
  | BuiltinTypeInfoIs "ResolveError + BuiltinTypeDescriptor"

fun outcome :: "Answer \<times> TypeRefBuilder \<Rightarrow> Outcome" where
  "outcome (FieldTypeInfo r, B) = FieldTypeInfoIs r"
| "outcome (DependentMemberType r, B) = TypeIs (map_sum id (structureOf B) r)"
| "outcome (BuiltinTypeInfo r, B) = BuiltinTypeInfoIs r"

text \<open>A call that registers an image.\<close>

fun isRegistration :: "Call \<Rightarrow> bool" where
  "isRegistration (AddReflectionInfo I) = True"
| "isRegistration _ = False"

text \<open>
  The collaborator that builds decoded types works through the factory methods: what it
  does to a builder is a run of factory calls, none of them a registration; and whether
  and what it builds is decided by the structure alone: either it builds the structure on
  every builder, or it yields the null pointer on every builder (a structure that the
  factory refuses).
\<close>

definition buildsThroughFactory ::
  "(TypeStructure \<Rightarrow> TypeRefBuilder \<Rightarrow> pointer \<times> TypeRefBuilder) \<Rightarrow> bool" where
  "buildsThroughFactory build \<longleftrightarrow>
     (\<forall>T. (\<forall>B. \<exists>calls. list_all (\<lambda>c. \<not> isRegistration c) calls
                \<and> run calls B = Inr (snd (build T B)))
          \<and> ((\<forall>B. structureOf (snd (build T B)) (fst (build T B)) = Some T)
             \<or> (\<forall>B. fst (build T B) = nullptr)))"

section \<open>Concrete builders, images and descriptors\<close>

text \<open>A builder that owns no node and knows no image.\<close>

definition emptyBuilder :: TypeRefBuilder where
  "emptyBuilder = \<lparr>TypeRefPool = [], ReflectionInfos = []\<rparr>"

text \<open>A builder that owns a protocol node and a builtin node.\<close>

definition exampleBuilder :: TypeRefBuilder where
  "exampleBuilder =
     \<lparr>TypeRefPool = [ProtocolTypeRef '''' ''Sequence'', BuiltinTypeRef ''Int''],
      ReflectionInfos = []\<rparr>"

text \<open>Two images that both describe the fields of \<^verbatim>\<open>Foo\<close>, differently.\<close>

definition barInA :: FieldDescriptor where
  "barInA = \<lparr>MangledTypeName = ''Bar'', Fields = []\<rparr>"

definition fooInA :: FieldDescriptor where
  "fooInA = \<lparr>MangledTypeName = ''Foo'', Fields = [(''a'', ''Int'')]\<rparr>"

definition fooInB :: FieldDescriptor where
  "fooInB = \<lparr>MangledTypeName = ''Foo'', Fields = [(''b'', ''Int'')]\<rparr>"

definition exampleImageA :: ReflectionInfo where
  "exampleImageA =
     \<lparr>ImageName = ''A'', fieldmd = [barInA, fooInA], assocty = [], builtin = [],
      typeref = [], reflstr = []\<rparr>"

definition exampleImageB :: ReflectionInfo where
  "exampleImageB =
     \<lparr>ImageName = ''B'', fieldmd = [fooInB], assocty = [], builtin = [],
      typeref = [], reflstr = []\<rparr>"

definition twoImages :: TypeRefBuilder where
  "twoImages = addReflectionInfo (addReflectionInfo emptyBuilder exampleImageA) exampleImageB"

text \<open>
  An image with the conformance of \<^verbatim>\<open>Container\<close> to \<^verbatim>\<open>Sequence\<close>, and a decoder for
  the two names the descriptor mentions.
\<close>

definition exampleDecode :: "string \<Rightarrow> TypeStructure option" where
  "exampleDecode mangledName =
     (if mangledName = ''Int'' then Some (Builtin ''Int'')
      else if mangledName = ''Sequence'' then Some (Protocol '''' ''Sequence'')
      else None)"

definition containerSequence :: AssociatedTypeDescriptor where
  "containerSequence =
     \<lparr>ConformingTypeName = ''Container'', ProtocolTypeName = ''Sequence'',
      AssociatedTypes = [(''Element'', ''Int'')]\<rparr>"

definition containerImage :: ReflectionInfo where
  "containerImage =
     \<lparr>ImageName = ''libContainer'', fieldmd = [], assocty = [containerSequence],
      builtin = [], typeref = [], reflstr = []\<rparr>"

definition containerBuilder :: TypeRefBuilder where
  "containerBuilder = addReflectionInfo emptyBuilder containerImage"

text \<open>
  The generic type \<^verbatim>\<open>Pair\<close> with its two fields, whose types are the two generic
  parameters of \<^verbatim>\<open>Pair\<close>, and a decoder for the two names of the field types.
\<close>

definition pairDecode :: "string \<Rightarrow> TypeStructure option" where
  "pairDecode mangledName =
     (if mangledName = ''x'' then Some (GenericTypeParameter 0 0)
      else if mangledName = ''q_'' then Some (GenericTypeParameter 0 1)
      else None)"

definition pairFields :: FieldDescriptor where
  "pairFields =
     \<lparr>MangledTypeName = ''Pair'', Fields = [(''first'', ''x''), (''second'', ''q_'')]\<rparr>"

definition pairArgs :: "TypeStructure list" where
  "pairArgs = [Nominal ''Int'' None, Nominal ''String'' None]"


text \<open>
  The generic type \<^verbatim>\<open>Inner\<close>, nested in the generic type \<^verbatim>\<open>Outer\<close>, bound to
  \<^verbatim>\<open>String\<close> inside \<^verbatim>\<open>Outer\<close> bound to \<^verbatim>\<open>Int\<close>. Its field \<^verbatim>\<open>value\<close> has the type
  of \<^verbatim>\<open>Inner\<close>'s parameter, its field \<^verbatim>\<open>owner\<close> that of \<^verbatim>\<open>Outer\<close>'s.
\<close>

definition nestedDecode :: "string \<Rightarrow> TypeStructure option" where
  "nestedDecode mangledName =
     (if mangledName = ''x'' then Some (GenericTypeParameter 0 0)
      else if mangledName = ''qd__'' then Some (GenericTypeParameter 1 0)
      else None)"

definition innerFields :: FieldDescriptor where
  "innerFields =
     \<lparr>MangledTypeName = ''Inner'', Fields = [(''value'', ''qd__''), (''owner'', ''x'')]\<rparr>"

definition outerInt :: TypeStructure where
  "outerInt = BoundGeneric ''Outer'' [Nominal ''Int'' None] None"

text \<open>
  A builder that owns the dependent member \<^verbatim>\<open>Element\<close> of \<^verbatim>\<open>Container\<close> under
  \<^verbatim>\<open>Sequence\<close> and knows the image with that conformance, and a collaborator that builds
  builtin types and protocols through the factory.
\<close>

definition memberBuilder :: TypeRefBuilder where
  "memberBuilder =
     \<lparr>TypeRefPool =
        [NominalTypeRef ''Container'' nullptr, ProtocolTypeRef '''' ''Sequence'',
         DependentMemberTypeRef ''Element'' (Pooled 0) (Pooled 1)],
      ReflectionInfos = [containerImage]\<rparr>"

definition exampleBuild :: "TypeStructure \<Rightarrow> TypeRefBuilder \<Rightarrow> pointer \<times> TypeRefBuilder" where
  "exampleBuild T B =
     (case T of
        Builtin mangledName \<Rightarrow> createBuiltinType B mangledName
      | Protocol moduleName protocolName \<Rightarrow> createProtocolType B moduleName protocolName
      | _ \<Rightarrow> (nullptr, B))"

section \<open>Properties of the factory methods\<close>

subsection \<open>Allocation\<close>

lemma deref_makeTypeRef_new:
  "deref (snd (makeTypeRef TR B)) (fst (makeTypeRef TR B)) = Some TR"
  by (simp add: makeTypeRef_def)

lemma deref_makeTypeRef_old:
  "deref B p = Some TR' \<Longrightarrow> deref (snd (makeTypeRef TR B)) p = Some TR'"
  by (cases p) (auto simp: makeTypeRef_def nth_append split: if_splits)

lemma ReflectionInfos_makeTypeRef:
  "ReflectionInfos (snd (makeTypeRef TR B)) = ReflectionInfos B"
  by (simp add: makeTypeRef_def)

subsection \<open>Protocol compositions\<close>

lemma allProtocols_True:
  "(\<forall>p \<in> set protocols. designatesProtocol B p) \<Longrightarrow> allProtocols B protocols = Inr True"
  by (induction protocols)
     (auto simp: designatesProtocol_def isa_ProtocolTypeRef_def split: option.splits)

lemma allProtocols_False:
  "(\<forall>p \<in> set protocols. deref B p \<noteq> None) \<Longrightarrow>
   (\<exists>p \<in> set protocols. \<not> designatesProtocol B p) \<Longrightarrow> allProtocols B protocols = Inr False"
  by (induction protocols)
     (auto simp: designatesProtocol_def isa_ProtocolTypeRef_def split: option.splits bool.splits)

text \<open>
  C2. For a list of pointers that all designate nodes, \<^verbatim>\<open>createProtocolCompositionType\<close>
  returns the null pointer, and leaves the builder as it was, if some member is not a
  \<^verbatim>\<open>Protocol\<close> node. If every member is a \<^verbatim>\<open>Protocol\<close> node it returns a pointer
  that is not null and designates, in the new builder, a \<^verbatim>\<open>ProtocolComposition\<close> node
  whose set of members is the set of the given pointers.
\<close>

theorem createProtocolCompositionType_partial:
  "((\<forall>p \<in> set protocols. deref B p \<noteq> None) \<longrightarrow>
      (\<exists>p \<in> set protocols. \<not> designatesProtocol B p) \<longrightarrow>
      createProtocolCompositionType B protocols = Inr (nullptr, B))
   \<and> ((\<forall>p \<in> set protocols. designatesProtocol B p) \<longrightarrow>
      (\<exists>composition B' members.
         createProtocolCompositionType B protocols = Inr (composition, B')
         \<and> composition \<noteq> nullptr
         \<and> deref B' composition = Some (ProtocolCompositionTypeRef members)
         \<and> set members = set protocols))"
proof (intro conjI impI)
  assume "\<forall>p \<in> set protocols. deref B p \<noteq> None"
    and "\<exists>p \<in> set protocols. \<not> designatesProtocol B p"
  then have "allProtocols B protocols = Inr False"
    by (rule allProtocols_False)
  then show "createProtocolCompositionType B protocols = Inr (nullptr, B)"
    by (simp add: createProtocolCompositionType_def)
next
  assume "\<forall>p \<in> set protocols. designatesProtocol B p"
  then have "allProtocols B protocols = Inr True"
    by (rule allProtocols_True)
  then have "createProtocolCompositionType B protocols =
      Inr (makeTypeRef (ProtocolCompositionTypeRef protocols) B)"
    by (simp add: createProtocolCompositionType_def)
  then show "\<exists>composition B' members.
         createProtocolCompositionType B protocols = Inr (composition, B')
         \<and> composition \<noteq> nullptr
         \<and> deref B' composition = Some (ProtocolCompositionTypeRef members)
         \<and> set members = set protocols"
    by (simp add: makeTypeRef_def)
qed

text \<open>
  In \<open>exampleBuilder\<close>, a protocol together with a builtin type yields no composition;
  the protocol alone, given twice, yields a composition of that one member.
\<close>

theorem createProtocolCompositionType_partial_witness:
  "createProtocolCompositionType exampleBuilder [Pooled 0, Pooled 1]
     = Inr (nullptr, exampleBuilder)
   \<and> (\<exists>composition B' members.
         createProtocolCompositionType exampleBuilder [Pooled 0, Pooled 0]
           = Inr (composition, B')
         \<and> composition \<noteq> nullptr
         \<and> deref B' composition = Some (ProtocolCompositionTypeRef members)
         \<and> set members = {Pooled 0})"
proof -
  have valid: "\<forall>p \<in> set [Pooled 0, Pooled 1]. deref exampleBuilder p \<noteq> None"
    by (simp add: exampleBuilder_def)
  have other: "\<exists>p \<in> set [Pooled 0, Pooled 1]. \<not> designatesProtocol exampleBuilder p"
    by (simp add: exampleBuilder_def designatesProtocol_def)
  have all: "\<forall>p \<in> set [Pooled 0, Pooled 0]. designatesProtocol exampleBuilder p"
    by (simp add: exampleBuilder_def designatesProtocol_def)
  from createProtocolCompositionType_partial [of "[Pooled 0, Pooled 1]" exampleBuilder]
    valid other
  have absent: "createProtocolCompositionType exampleBuilder [Pooled 0, Pooled 1]
      = Inr (nullptr, exampleBuilder)"
    by blast
  from createProtocolCompositionType_partial [of "[Pooled 0, Pooled 0]" exampleBuilder] all
  have "\<exists>composition B' members.
         createProtocolCompositionType exampleBuilder [Pooled 0, Pooled 0]
           = Inr (composition, B')
         \<and> composition \<noteq> nullptr
         \<and> deref B' composition = Some (ProtocolCompositionTypeRef members)
         \<and> set members = set [Pooled 0, Pooled 0]"
    by blast
  with absent show ?thesis by simp
qed

subsection \<open>Dependent members\<close>

text \<open>
  C3. For every member name and base, and every third argument that designates a node,
  \<^verbatim>\<open>createDependentMemberType\<close> returns the null pointer, and leaves the builder as it
  was, when that node is not a \<^verbatim>\<open>Protocol\<close> node; when it is, the method returns a
  pointer that is not null and designates the new \<^verbatim>\<open>DependentMember\<close> node.
\<close>

theorem createDependentMemberType_partial:
  "(deref B protocol \<noteq> None \<longrightarrow> \<not> designatesProtocol B protocol \<longrightarrow>
      createDependentMemberType B member base protocol = Inr (nullptr, B))
   \<and> (designatesProtocol B protocol \<longrightarrow>
      (\<exists>dependentMember B'.
         createDependentMemberType B member base protocol = Inr (dependentMember, B')
         \<and> dependentMember \<noteq> nullptr
         \<and> deref B' dependentMember = Some (DependentMemberTypeRef member base protocol)))"
  by (auto simp: createDependentMemberType_def isa_ProtocolTypeRef_def designatesProtocol_def
        makeTypeRef_def split: option.splits)

text \<open>
  In \<open>exampleBuilder\<close>, the builtin node as third argument yields nothing, the protocol
  node yields a dependent member.
\<close>

theorem createDependentMemberType_partial_witness:
  "createDependentMemberType exampleBuilder ''Element'' (Pooled 1) (Pooled 1)
     = Inr (nullptr, exampleBuilder)
   \<and> (\<exists>dependentMember B'.
         createDependentMemberType exampleBuilder ''Element'' (Pooled 1) (Pooled 0)
           = Inr (dependentMember, B')
         \<and> dependentMember \<noteq> nullptr
         \<and> deref B' dependentMember
             = Some (DependentMemberTypeRef ''Element'' (Pooled 1) (Pooled 0)))"
proof -
  have valid: "deref exampleBuilder (Pooled 1) \<noteq> None"
    by (simp add: exampleBuilder_def)
  have other: "\<not> designatesProtocol exampleBuilder (Pooled 1)"
    by (simp add: exampleBuilder_def designatesProtocol_def)
  have proto: "designatesProtocol exampleBuilder (Pooled 0)"
    by (simp add: exampleBuilder_def designatesProtocol_def)
  from createDependentMemberType_partial [of exampleBuilder "Pooled 1" "''Element''" "Pooled 1"]
    valid other
  have absent: "createDependentMemberType exampleBuilder ''Element'' (Pooled 1) (Pooled 1)
      = Inr (nullptr, exampleBuilder)"
    by blast
  from createDependentMemberType_partial [of exampleBuilder "Pooled 0" "''Element''" "Pooled 1"]
    proto absent
  show ?thesis by blast
qed

subsection \<open>Nominal type declaration handles\<close>

text \<open>
  C9. \<^verbatim>\<open>createNominalType\<close> and \<^verbatim>\<open>createBoundGenericType\<close> dereference their
  handle without a check. Each leaves defined behaviour exactly when the handle is absent:
  with a handle that is present the dereference yields the name and the node is made from
  it; with an absent handle the call ends in the failed dereference, not in a null
  pointer or any other result the caller could test.
\<close>

theorem nominal_handle_dereferenced:
  "(isl (createNominalType B mangledName parent) \<longleftrightarrow> mangledName = None)
   \<and> (isl (createBoundGenericType B mangledName args parent) \<longleftrightarrow> mangledName = None)
   \<and> createNominalType B None parent = Inl OptionalHasNoValue
   \<and> createBoundGenericType B None args parent = Inl OptionalHasNoValue
   \<and> createNominalType B (Some name) parent = Inr (makeTypeRef (NominalTypeRef name parent) B)
   \<and> createBoundGenericType B (Some name) args parent =
       Inr (makeTypeRef (BoundGenericTypeRef name args parent) B)"
  by (simp add: createNominalType_def createBoundGenericType_def split: option.splits)

subsection \<open>Function types\<close>

text \<open>
  C10. The result of \<^verbatim>\<open>createFunctionType\<close> does not depend on \<^verbatim>\<open>inOutArgs\<close>. Two
  calls on the same builder that differ only in \<^verbatim>\<open>inOutArgs\<close> return the same pointer
  and the same builder; two calls on any two builders that agree on the parameter list, the
  result type and the flags construct nodes that are equal: the \<^verbatim>\<open>Function\<close> node of
  these three.
\<close>

theorem createFunctionType_ignores_inOutArgs:
  "createFunctionType B args inOutArgs result flags =
     createFunctionType B args inOutArgs' result flags
   \<and> (case createFunctionType B args inOutArgs result flags of (F, B1) \<Rightarrow>
       case createFunctionType B' args inOutArgs' result flags of (F', B1') \<Rightarrow>
         deref B1 F = Some (FunctionTypeRef args result flags)
         \<and> deref B1' F' = Some (FunctionTypeRef args result flags))"
  by (simp add: createFunctionType_def makeTypeRef_def)


subsection \<open>The singleton placeholders\<close>

text \<open>
  C7. Each of \<^verbatim>\<open>getUnnamedObjCClassType\<close>, \<^verbatim>\<open>getUnnamedForeignClassType\<close> and
  \<^verbatim>\<open>getOpaqueType\<close> returns a node: a pointer that is not null and that designates,
  in every builder, the placeholder of its kind. Any two calls return the same pointer,
  whatever the builders they are made on and whatever was called before. The node is not
  allocated from the arena: the call leaves the builder, and so the pool, as it was, and
  the pointer is not the address of a node of the pool, nor ever the pointer that an
  allocation returns.
\<close>

theorem singleton_placeholders_stable:
  "fst (getUnnamedObjCClassType B) = fst (getUnnamedObjCClassType B')
   \<and> fst (getUnnamedForeignClassType B) = fst (getUnnamedForeignClassType B')
   \<and> fst (getOpaqueType B) = fst (getOpaqueType B')
   \<and> fst (getUnnamedObjCClassType B) \<noteq> nullptr
   \<and> fst (getUnnamedForeignClassType B) \<noteq> nullptr
   \<and> fst (getOpaqueType B) \<noteq> nullptr
   \<and> deref B' (fst (getUnnamedObjCClassType B)) = Some ObjCClassTypeRef
   \<and> deref B' (fst (getUnnamedForeignClassType B)) = Some ForeignClassTypeRef
   \<and> deref B' (fst (getOpaqueType B)) = Some OpaqueTypeRef
   \<and> snd (getUnnamedObjCClassType B) = B
   \<and> snd (getUnnamedForeignClassType B) = B
   \<and> snd (getOpaqueType B) = B
   \<and> fst (getUnnamedObjCClassType B) \<noteq> Pooled n
   \<and> fst (getUnnamedForeignClassType B) \<noteq> Pooled n
   \<and> fst (getOpaqueType B) \<noteq> Pooled n
   \<and> fst (getUnnamedObjCClassType B) \<noteq> fst (makeTypeRef TR B')
   \<and> fst (getUnnamedForeignClassType B) \<noteq> fst (makeTypeRef TR B')
   \<and> fst (getOpaqueType B) \<noteq> fst (makeTypeRef TR B')"
  by (simp add: getUnnamedObjCClassType_def getUnnamedForeignClassType_def getOpaqueType_def
        ObjCClassTypeRef_getUnnamed_def ForeignClassTypeRef_getUnnamed_def OpaqueTypeRef_get_def
        makeTypeRef_def)

section \<open>Properties of the registry\<close>

lemma call_ReflectionInfos:
  "call c B = Inr B' \<Longrightarrow> prefix (ReflectionInfos B) (ReflectionInfos B')"
proof (cases c)
  case (CreateNominalType mangledName parent)
  then show "call c B = Inr B' \<Longrightarrow> ?thesis"
    by (auto simp: createNominalType_def ReflectionInfos_makeTypeRef split: option.splits)
next
  case (CreateBoundGenericType mangledName args parent)
  then show "call c B = Inr B' \<Longrightarrow> ?thesis"
    by (auto simp: createBoundGenericType_def ReflectionInfos_makeTypeRef split: option.splits)
next
  case (CreateProtocolCompositionType protocols)
  then show "call c B = Inr B' \<Longrightarrow> ?thesis"
    by (auto simp: createProtocolCompositionType_def ReflectionInfos_makeTypeRef
          split: sum.splits bool.splits)
next
  case (CreateDependentMemberType member base protocol)
  then show "call c B = Inr B' \<Longrightarrow> ?thesis"
    by (auto simp: createDependentMemberType_def ReflectionInfos_makeTypeRef
          split: sum.splits bool.splits)
next
  case (AddReflectionInfo I)
  then show "call c B = Inr B' \<Longrightarrow> ?thesis"
    by (auto simp: addReflectionInfo_def)
qed (auto simp: createBuiltinType_def createTupleType_def createFunctionType_def
       createProtocolType_def createExistentialMetatypeType_def createMetatypeType_def
       createGenericTypeParameterType_def createUnownedStorageType_def
       createUnmanagedStorageType_def createWeakStorageType_def getUnnamedObjCClassType_def
       getUnnamedForeignClassType_def getOpaqueType_def ReflectionInfos_makeTypeRef)

lemma run_ReflectionInfos:
  "run calls B = Inr B' \<Longrightarrow> prefix (ReflectionInfos B) (ReflectionInfos B')"
proof (induction calls arbitrary: B)
  case Nil
  then show ?case by simp
next
  case (Cons c calls)
  from Cons.prems obtain B1 where c: "call c B = Inr B1" and rest: "run calls B1 = Inr B'"
    by (auto split: sum.splits)
  from c have "prefix (ReflectionInfos B) (ReflectionInfos B1)"
    by (rule call_ReflectionInfos)
  moreover from rest have "prefix (ReflectionInfos B1) (ReflectionInfos B')"
    by (rule Cons.IH)
  ultimately show ?case
    by (rule prefix_order.trans)
qed

text \<open>
  C6. \<^verbatim>\<open>addReflectionInfo\<close> puts the bundle at the end of the registry: the registry
  after the call is the registry before it, unchanged and in its order, followed by the
  bundle. The call has no failing branch and does not touch the pool. Over any sequence of
  calls of the factory and registration methods, the registry at the start is a prefix of
  the registry at the end: nothing is reordered and nothing is removed.
\<close>

theorem registry_append_only:
  "ReflectionInfos (addReflectionInfo B I) = ReflectionInfos B @ [I]
   \<and> TypeRefPool (addReflectionInfo B I) = TypeRefPool B
   \<and> call (AddReflectionInfo I) B = Inr (addReflectionInfo B I)
   \<and> (run calls B = Inr B' \<longrightarrow> prefix (ReflectionInfos B) (ReflectionInfos B'))"
  by (simp add: addReflectionInfo_def run_ReflectionInfos)

text \<open>
  A run that registers image \<open>B\<close> between two allocations, on a builder that knows image
  \<open>A\<close>: the registry \<open>[A]\<close> is a prefix of the final registry \<open>[A, B]\<close>.
\<close>

theorem registry_append_only_witness:
  "run [CreateBuiltinType ''Int'', AddReflectionInfo exampleImageB, CreateProtocolType '''' ''P'']
       (addReflectionInfo emptyBuilder exampleImageA)
     = Inr \<lparr>TypeRefPool = [BuiltinTypeRef ''Int'', ProtocolTypeRef '''' ''P''],
            ReflectionInfos = [exampleImageA, exampleImageB]\<rparr>
   \<and> prefix (ReflectionInfos (addReflectionInfo emptyBuilder exampleImageA))
       [exampleImageA, exampleImageB]"
proof -
  have ran: "run [CreateBuiltinType ''Int'', AddReflectionInfo exampleImageB,
        CreateProtocolType '''' ''P''] (addReflectionInfo emptyBuilder exampleImageA)
     = Inr \<lparr>TypeRefPool = [BuiltinTypeRef ''Int'', ProtocolTypeRef '''' ''P''],
            ReflectionInfos = [exampleImageA, exampleImageB]\<rparr>"
    by (simp add: addReflectionInfo_def emptyBuilder_def createBuiltinType_def
          createProtocolType_def makeTypeRef_def)
  from registry_append_only
      [of "addReflectionInfo emptyBuilder exampleImageA" exampleImageB
        "[CreateBuiltinType ''Int'', AddReflectionInfo exampleImageB,
          CreateProtocolType '''' ''P'']"
        "\<lparr>TypeRefPool = [BuiltinTypeRef ''Int'', ProtocolTypeRef '''' ''P''],
          ReflectionInfos = [exampleImageA, exampleImageB]\<rparr>"] ran
  have "prefix (ReflectionInfos (addReflectionInfo emptyBuilder exampleImageA))
      (ReflectionInfos \<lparr>TypeRefPool = [BuiltinTypeRef ''Int'', ProtocolTypeRef '''' ''P''],
          ReflectionInfos = [exampleImageA, exampleImageB]\<rparr>)"
    by blast
  with ran show ?thesis by simp
qed

section \<open>Properties of the resolver\<close>

subsection \<open>Scans\<close>

lemma find_no_match: "find P xs = None \<longleftrightarrow> (\<forall>x \<in> set xs. \<not> P x)"
  by (induction xs) auto

lemma find_Some_matches: "find P xs = Some x \<Longrightarrow> x \<in> set xs \<and> P x"
  by (induction xs) (auto split: if_splits)

lemma find_first:
  "\<forall>x \<in> set before. \<not> P x \<Longrightarrow> P r \<Longrightarrow> find P (before @ r # after) = Some r"
  by (induction before) auto

lemma scan_None:
  "scan P sections = None \<longleftrightarrow> (\<forall>records \<in> set sections. \<forall>r \<in> set records. \<not> P r)"
  by (induction sections)
     (auto simp: find_no_match split: option.splits dest: find_Some_matches)

lemma scan_skip:
  "\<forall>records \<in> set earlier. \<forall>r \<in> set records. \<not> P r \<Longrightarrow>
   scan P (earlier @ later) = scan P later"
  by (induction earlier)
     (auto simp: find_no_match split: option.splits dest: find_Some_matches)

lemma scan_first:
  assumes "\<forall>records \<in> set earlier. \<forall>r \<in> set records. \<not> P r"
    and "\<forall>x \<in> set before. \<not> P x" and "P r"
  shows "scan P (earlier @ (before @ r # after) # later) = Some r"
  using assms by (simp add: scan_skip find_first)

subsection \<open>Field descriptors\<close>

text \<open>
  C4. Let images \<open>A\<close> and \<open>B\<close> be registered in this order, both with a field descriptor
  for the mangled name of \<open>TR\<close>, \<open>A\<close> being the first registered image that has one. Then
  \<^verbatim>\<open>getFieldTypeInfo\<close> returns the descriptor of \<open>A\<close> (the first of them in \<open>A\<close>'s
  section). The query is a function of the builder's registry and \<open>TR\<close> alone, so it
  returns this descriptor at every invocation on such a registry, whatever else is
  registered between or after the two and whatever the pool holds.
\<close>

theorem getFieldTypeInfo_first_registered:
  assumes "ReflectionInfos B = earlier @ imageA # between @ imageB # later"
    and "nominalName TR = Some name"
    and "fieldmd imageA = before @ FD_A # after"
    and "MangledTypeName FD_A = name"
    and "\<forall>FD \<in> set before. MangledTypeName FD \<noteq> name"
    and "\<exists>FD \<in> set (fieldmd imageB). MangledTypeName FD = name"
    and "\<forall>I \<in> set earlier. \<forall>FD \<in> set (fieldmd I). MangledTypeName FD \<noteq> name"
  shows "getFieldTypeInfo B TR = Inr FD_A"
proof -
  have "scan (\<lambda>FD. MangledTypeName FD = name) (map fieldmd (ReflectionInfos B))
      = scan (\<lambda>FD. MangledTypeName FD = name)
          (map fieldmd earlier @ (before @ FD_A # after)
             # map fieldmd (between @ imageB # later))"
    by (simp add: assms(1,3))
  also have "\<dots> = Some FD_A"
    using assms(4,5,7) by (intro scan_first) auto
  finally show ?thesis
    by (simp add: getFieldTypeInfo_def assms(2))
qed

text \<open>
  Images \<open>A\<close> and \<open>B\<close> of \<open>twoImages\<close> both describe \<^verbatim>\<open>Foo\<close>; the query returns the
  descriptor of \<open>A\<close>, which is the second record of \<open>A\<close>'s field section.
\<close>

theorem getFieldTypeInfo_first_registered_witness:
  "getFieldTypeInfo twoImages (Nominal ''Foo'' None) = Inr fooInA
   \<and> fooInA \<noteq> fooInB"
proof -
  have registry: "ReflectionInfos twoImages = [] @ exampleImageA # [] @ exampleImageB # []"
    by (simp add: twoImages_def addReflectionInfo_def emptyBuilder_def)
  have name: "nominalName (Nominal ''Foo'' None) = Some ''Foo''"
    by simp
  have records: "fieldmd exampleImageA = [barInA] @ fooInA # []"
    by (simp add: exampleImageA_def)
  have owner: "MangledTypeName fooInA = ''Foo''"
    by (simp add: fooInA_def)
  have before: "\<forall>FD \<in> set [barInA]. MangledTypeName FD \<noteq> ''Foo''"
    by (simp add: barInA_def)
  have second: "\<exists>FD \<in> set (fieldmd exampleImageB). MangledTypeName FD = ''Foo''"
    by (simp add: exampleImageB_def fooInB_def)
  have earlier: "\<forall>I \<in> set []. \<forall>FD \<in> set (fieldmd I). MangledTypeName FD \<noteq> ''Foo''"
    by simp
  have "getFieldTypeInfo twoImages (Nominal ''Foo'' None) = Inr fooInA"
    by (rule getFieldTypeInfo_first_registered
          [OF registry name records owner before second earlier])
  then show ?thesis
    by (simp add: fooInA_def fooInB_def)
qed

subsection \<open>Dependent members\<close>

lemma scan_firstConformance:
  assumes "firstConformance decode B mangledTypeName protocol AD"
  shows "scan (matchesConformance decode mangledTypeName protocol)
      (map assocty (ReflectionInfos B)) = Some AD"
proof -
  from assms obtain earlier I later before after where
    registry: "ReflectionInfos B = earlier @ I # later"
    and records: "assocty I = before @ AD # after"
    and matches: "matchesConformance decode mangledTypeName protocol AD"
    and earlier: "\<forall>I' \<in> set earlier. \<forall>AD' \<in> set (assocty I').
              \<not> matchesConformance decode mangledTypeName protocol AD'"
    and before: "\<forall>AD' \<in> set before. \<not> matchesConformance decode mangledTypeName protocol AD'"
    unfolding firstConformance_def by blast
  have "map assocty (ReflectionInfos B)
      = map assocty earlier @ (before @ AD # after) # map assocty later"
    by (simp add: registry records)
  moreover have "scan (matchesConformance decode mangledTypeName protocol)
      (map assocty earlier @ (before @ AD # after) # map assocty later) = Some AD"
    using earlier before matches by (intro scan_first) auto
  ultimately show ?thesis by simp
qed

text \<open>
  C5. Let \<open>AD\<close> be the first registered descriptor of the conformance of the mangled type
  name to the protocol that the dependent member carries. If \<open>AD\<close> maps the member name to
  a substitute name, and that name decodes to \<open>T\<close>, then \<^verbatim>\<open>getDependentMemberTypeRef\<close>
  returns \<open>T\<close>. If no registered descriptor matches the conformance, or \<open>AD\<close> has no
  entry for the member name, the query reports a lookup miss: an error value, not a type.
  The instance of the claim (conforming type \<^verbatim>\<open>Container\<close>, protocol \<^verbatim>\<open>Sequence\<close>,
  member \<^verbatim>\<open>Element\<close>, substitute \<^verbatim>\<open>Int\<close>) follows the theorem.
\<close>

theorem getDependentMemberTypeRef_resolves:
  "(firstConformance decode B mangledTypeName (Protocol moduleName protocolName) AD \<longrightarrow>
      map_of (AssociatedTypes AD) member = Some substitute \<longrightarrow>
      decode substitute = Some T \<longrightarrow>
      getDependentMemberTypeRef decode B mangledTypeName
        (DependentMember member base (Protocol moduleName protocolName)) = Inr T)
   \<and> ((\<forall>I \<in> set (ReflectionInfos B). \<forall>AD' \<in> set (assocty I).
         \<not> matchesConformance decode mangledTypeName (Protocol moduleName protocolName) AD') \<longrightarrow>
      getDependentMemberTypeRef decode B mangledTypeName
        (DependentMember member base (Protocol moduleName protocolName)) = Inl LookupMiss)
   \<and> (firstConformance decode B mangledTypeName (Protocol moduleName protocolName) AD \<longrightarrow>
      member \<notin> fst ` set (AssociatedTypes AD) \<longrightarrow>
      getDependentMemberTypeRef decode B mangledTypeName
        (DependentMember member base (Protocol moduleName protocolName)) = Inl LookupMiss)"
proof (intro conjI impI)
  assume "firstConformance decode B mangledTypeName (Protocol moduleName protocolName) AD"
    and "map_of (AssociatedTypes AD) member = Some substitute"
    and "decode substitute = Some T"
  then show "getDependentMemberTypeRef decode B mangledTypeName
        (DependentMember member base (Protocol moduleName protocolName)) = Inr T"
    by (simp add: getDependentMemberTypeRef_def scan_firstConformance)
next
  assume "\<forall>I \<in> set (ReflectionInfos B). \<forall>AD' \<in> set (assocty I).
         \<not> matchesConformance decode mangledTypeName (Protocol moduleName protocolName) AD'"
  then have "scan (matchesConformance decode mangledTypeName (Protocol moduleName protocolName))
      (map assocty (ReflectionInfos B)) = None"
    by (simp add: scan_None)
  then show "getDependentMemberTypeRef decode B mangledTypeName
        (DependentMember member base (Protocol moduleName protocolName)) = Inl LookupMiss"
    by (simp add: getDependentMemberTypeRef_def)
next
  assume first: "firstConformance decode B mangledTypeName (Protocol moduleName protocolName) AD"
    and "member \<notin> fst ` set (AssociatedTypes AD)"
  then have "map_of (AssociatedTypes AD) member = None"
    by (simp add: map_of_eq_None_iff)
  with first show "getDependentMemberTypeRef decode B mangledTypeName
        (DependentMember member base (Protocol moduleName protocolName)) = Inl LookupMiss"
    by (simp add: getDependentMemberTypeRef_def scan_firstConformance)
qed

text \<open>
  The instance of the specification: the descriptor of \<^verbatim>\<open>Container\<close>'s conformance to
  \<^verbatim>\<open>Sequence\<close> maps \<^verbatim>\<open>Element\<close> to \<^verbatim>\<open>Int\<close>, and the query yields
  \<open>Builtin ''Int''\<close>. A type with no descriptor and a member with no entry are lookup misses.
\<close>

theorem getDependentMemberTypeRef_resolves_witness:
  "getDependentMemberTypeRef exampleDecode containerBuilder ''Container''
     (DependentMember ''Element'' (Nominal ''Container'' None) (Protocol '''' ''Sequence''))
     = Inr (Builtin ''Int'')
   \<and> getDependentMemberTypeRef exampleDecode containerBuilder ''Other''
     (DependentMember ''Element'' (Nominal ''Other'' None) (Protocol '''' ''Sequence''))
     = Inl LookupMiss
   \<and> getDependentMemberTypeRef exampleDecode containerBuilder ''Container''
     (DependentMember ''Index'' (Nominal ''Container'' None) (Protocol '''' ''Sequence''))
     = Inl LookupMiss"
proof -
  have matches: "matchesConformance exampleDecode ''Container'' (Protocol '''' ''Sequence'')
      containerSequence"
    by (simp add: matchesConformance_def containerSequence_def exampleDecode_def)
  have "ReflectionInfos containerBuilder = [] @ containerImage # []
      \<and> assocty containerImage = [] @ containerSequence # []"
    by (simp add: containerBuilder_def containerImage_def addReflectionInfo_def
          emptyBuilder_def)
  with matches
  have first: "firstConformance exampleDecode containerBuilder ''Container''
      (Protocol '''' ''Sequence'') containerSequence"
    unfolding firstConformance_def by (intro exI [of _ "[]"] exI [of _ containerImage]) simp
  have entry: "map_of (AssociatedTypes containerSequence) ''Element'' = Some ''Int''"
    by (simp add: containerSequence_def)
  have int: "exampleDecode ''Int'' = Some (Builtin ''Int'')"
    by (simp add: exampleDecode_def)
  have none: "\<forall>I \<in> set (ReflectionInfos containerBuilder). \<forall>AD' \<in> set (assocty I).
      \<not> matchesConformance exampleDecode ''Other'' (Protocol '''' ''Sequence'') AD'"
    by (simp add: containerBuilder_def containerImage_def containerSequence_def
          matchesConformance_def addReflectionInfo_def emptyBuilder_def)
  have missing: "''Index'' \<notin> fst ` set (AssociatedTypes containerSequence)"
    by (simp add: containerSequence_def)
  from getDependentMemberTypeRef_resolves
      [of exampleDecode containerBuilder "''Container''" "''''" "''Sequence''" containerSequence
        "''Element''" "''Int''" "Builtin ''Int''" "Nominal ''Container'' None"]
    first entry int
  have resolved: "getDependentMemberTypeRef exampleDecode containerBuilder ''Container''
     (DependentMember ''Element'' (Nominal ''Container'' None) (Protocol '''' ''Sequence''))
     = Inr (Builtin ''Int'')"
    by blast
  from getDependentMemberTypeRef_resolves
      [of exampleDecode containerBuilder "''Other''" "''''" "''Sequence''" containerSequence
        "''Element''" "''Int''" "Builtin ''Int''" "Nominal ''Other'' None"]
    none
  have miss1: "getDependentMemberTypeRef exampleDecode containerBuilder ''Other''
     (DependentMember ''Element'' (Nominal ''Other'' None) (Protocol '''' ''Sequence''))
     = Inl LookupMiss"
    by blast
  from getDependentMemberTypeRef_resolves
      [of exampleDecode containerBuilder "''Container''" "''''" "''Sequence''" containerSequence
        "''Index''" "''Int''" "Builtin ''Int''" "Nominal ''Container'' None"]
    first missing
  have miss2: "getDependentMemberTypeRef exampleDecode containerBuilder ''Container''
     (DependentMember ''Index'' (Nominal ''Container'' None) (Protocol '''' ''Sequence''))
     = Inl LookupMiss"
    by blast
  from resolved miss1 miss2 show ?thesis by simp
qed


subsection \<open>Substituted field types\<close>

inductive_cases replacedE:
  "replaced ctxt (GenericTypeParameter depth index) T'"
  "replaced ctxt (Builtin mangledName) T'"
  "replaced ctxt (Nominal mangledName parent) T'"
  "replaced ctxt (BoundGeneric mangledName params parent) T'"
  "replaced ctxt (Tuple elements isVariadic) T'"
  "replaced ctxt (Function params result flags) T'"
  "replaced ctxt (Protocol moduleName protocolName) T'"
  "replaced ctxt (ProtocolComposition protocols) T'"
  "replaced ctxt (ExistentialMetatype instance) T'"
  "replaced ctxt (Metatype instance) T'"
  "replaced ctxt (DependentMember member base protocol) T'"
  "replaced ctxt (UnownedStorage base) T'"
  "replaced ctxt (UnmanagedStorage base) T'"
  "replaced ctxt (WeakStorage base) T'"
  "replaced ctxt ObjCClassPlaceholder T'"
  "replaced ctxt ForeignClassPlaceholder T'"
  "replaced ctxt OpaqueType T'"

lemma those_map_Some:
  "those (map f xs) = Some ys \<longleftrightarrow> list_all2 (\<lambda>x y. f x = Some y) xs ys"
  by (induction xs arbitrary: ys) (auto simp: list_all2_Cons1 split: option.splits)

lemma those_map_defined:
  "(\<And>x. x \<in> set xs \<Longrightarrow> \<exists>y. f x = Some y) \<Longrightarrow> \<exists>ys. those (map f xs) = Some ys"
  by (induction xs) (auto split: option.splits)

text \<open>Whatever the substitution returns has every parameter replaced.\<close>

lemma replaced_children:
  "(\<And>T T'. T \<in> set Ts \<Longrightarrow> subst ctxt T = Some T' \<Longrightarrow> replaced ctxt T T')
   \<Longrightarrow> those (map (subst ctxt) Ts) = Some Ts'
   \<Longrightarrow> list_all2 (replaced ctxt) Ts Ts'"
  by (auto simp: those_map_Some list_all2_conv_all_nth)

lemma subst_replaced:
  "subst ctxt T = Some T' \<Longrightarrow> replaced ctxt T T'"
proof (induction T arbitrary: T')
  case (GenericTypeParameter depth index)
  then show ?case
    by (auto intro: replaced.intros)
next
  case (Nominal mangledName parent)
  then show ?case
    by (cases parent) (auto intro!: replaced.intros)
next
  case (BoundGeneric mangledName params parent)
  then show ?case
    by (cases parent)
       (auto intro!: replaced.intros replaced_children split: option.splits)
next
  case (Tuple elements isVariadic)
  then show ?case
    by (auto intro!: replaced.intros replaced_children)
next
  case (Function params result flags)
  then show ?case
    by (auto intro!: replaced.intros replaced_children split: option.splits)
next
  case (ProtocolComposition protocols)
  then show ?case
    by (auto intro!: replaced.intros replaced_children)
next
  case (DependentMember member base protocol)
  then show ?case
    by (auto intro!: replaced.intros split: option.splits)
qed (auto intro: replaced.intros)

text \<open>The substitution has a result when every parameter has an argument.\<close>

lemma subst_children_defined:
  "(\<And>T. T \<in> set Ts \<Longrightarrow> list_all (hasArgument ctxt) (parameters T)
      \<Longrightarrow> \<exists>T'. subst ctxt T = Some T')
   \<Longrightarrow> list_all (hasArgument ctxt) (concat (map parameters Ts))
   \<Longrightarrow> \<exists>Ts'. those (map (subst ctxt) Ts) = Some Ts'"
  by (rule those_map_defined) (auto simp: list_all_iff)

lemma subst_defined:
  "list_all (hasArgument ctxt) (parameters T) \<Longrightarrow> \<exists>T'. subst ctxt T = Some T'"
proof (induction T)
  case (GenericTypeParameter depth index)
  then show ?case
    by (auto simp: hasArgument_def)
next
  case (Nominal mangledName parent)
  then show ?case
    by (cases parent) auto
next
  case (BoundGeneric mangledName params parent)
  from BoundGeneric.prems have "list_all (hasArgument ctxt) (concat (map parameters params))"
    by simp
  with BoundGeneric.IH(1) obtain params' where "those (map (subst ctxt) params) = Some params'"
    using subst_children_defined by blast
  with BoundGeneric show ?case
    by (cases parent) auto
next
  case (Tuple elements isVariadic)
  from Tuple.prems have "list_all (hasArgument ctxt) (concat (map parameters elements))"
    by simp
  with Tuple.IH obtain elements' where "those (map (subst ctxt) elements) = Some elements'"
    using subst_children_defined by blast
  then show ?case by simp
next
  case (Function params result flags)
  from Function.prems have "list_all (hasArgument ctxt) (concat (map parameters params))"
    by simp
  with Function.IH(1) obtain params' where "those (map (subst ctxt) params) = Some params'"
    using subst_children_defined by blast
  with Function show ?case by auto
next
  case (ProtocolComposition protocols)
  from ProtocolComposition.prems
  have "list_all (hasArgument ctxt) (concat (map parameters protocols))"
    by simp
  with ProtocolComposition.IH obtain protocols'
    where "those (map (subst ctxt) protocols) = Some protocols'"
    using subst_children_defined by blast
  then show ?case by simp
next
  case (DependentMember member base protocol)
  then show ?case by auto
qed auto

text \<open>The relation determines the resolved form.\<close>

lemma replaced_children_unique:
  "(\<And>T T1 T2. T \<in> set Ts \<Longrightarrow> replaced ctxt T T1 \<Longrightarrow> replaced ctxt T T2 \<Longrightarrow> T1 = T2)
   \<Longrightarrow> list_all2 (replaced ctxt) Ts Ts1 \<Longrightarrow> list_all2 (replaced ctxt) Ts Ts2 \<Longrightarrow> Ts1 = Ts2"
proof (induction Ts arbitrary: Ts1 Ts2)
  case Nil
  then show ?case by simp
next
  case (Cons T Ts)
  then show ?case
    by (auto simp: list_all2_Cons1) blast+
qed

lemma replaced_parent_unique:
  assumes "\<And>T T1 T2. T \<in> set_option parent \<Longrightarrow> replaced ctxt T T1 \<Longrightarrow> replaced ctxt T T2
      \<Longrightarrow> T1 = T2"
    and "rel_option (replaced ctxt) parent p1" and "rel_option (replaced ctxt) parent p2"
  shows "p1 = p2"
proof (cases parent)
  case None
  with assms(2,3) show ?thesis by simp
next
  case (Some P)
  with assms(2,3) obtain P1 P2 where "p1 = Some P1" "p2 = Some P2"
    "replaced ctxt P P1" "replaced ctxt P P2"
    by (auto simp: option_rel_Some1)
  with assms(1) [of P P1 P2] Some show ?thesis by simp
qed

lemma replaced_unique:
  "replaced ctxt T T1 \<Longrightarrow> replaced ctxt T T2 \<Longrightarrow> T1 = T2"
proof (induction T arbitrary: T1 T2)
  case (Nominal mangledName parent)
  from Nominal.prems show ?case
    by (auto elim!: replacedE intro: replaced_parent_unique [OF Nominal.IH])
next
  case (BoundGeneric mangledName params parent)
  from BoundGeneric.prems show ?case
    by (auto elim!: replacedE
        intro: replaced_children_unique [OF BoundGeneric.IH(1)]
          replaced_parent_unique [OF BoundGeneric.IH(2)])
next
  case (Tuple elements isVariadic)
  from Tuple.prems show ?case
    by (auto elim!: replacedE intro: replaced_children_unique [OF Tuple.IH])
next
  case (Function params result flags)
  from Function.prems show ?case
    by (auto elim!: replacedE
        intro: replaced_children_unique [OF Function.IH(1)] Function.IH(2))
next
  case (ProtocolComposition protocols)
  from ProtocolComposition.prems show ?case
    by (auto elim!: replacedE intro: replaced_children_unique [OF ProtocolComposition.IH])
qed (auto elim!: replacedE)

lemma resolveFields_replaced:
  "resolveFields decode (BoundGeneric name args parent) entries = Inr resolved
   \<Longrightarrow> list_all2 (\<lambda>field r. fst r = fst field
          \<and> (\<exists>T. decode (snd field) = Some T
                \<and> replaced (genericContext (BoundGeneric name args parent)) T (snd r)))
        entries resolved"
proof (induction entries arbitrary: resolved)
  case Nil
  then show ?case by simp
next
  case (Cons field entries)
  obtain fieldName mangledTypeName where field: "field = (fieldName, mangledTypeName)"
    by (cases field)
  from Cons.prems field obtain T T' rest where T: "decode mangledTypeName = Some T"
    and T': "subst (genericContext (BoundGeneric name args parent)) T = Some T'"
    and rest: "resolveFields decode (BoundGeneric name args parent) entries = Inr rest"
    and resolved: "resolved = (fieldName, T') # rest"
    by (auto split: option.splits sum.splits)
  from T' have "replaced (genericContext (BoundGeneric name args parent)) T T'"
    by (rule subst_replaced)
  moreover from rest have "list_all2 (\<lambda>field r. fst r = fst field
          \<and> (\<exists>T. decode (snd field) = Some T
                \<and> replaced (genericContext (BoundGeneric name args parent)) T (snd r)))
        entries rest"
    by (rule Cons.IH)
  ultimately show ?case
    using T field resolved by simp
qed

lemma resolveFields_defined:
  "\<forall>field \<in> set entries. \<exists>T. decode (snd field) = Some T
      \<and> list_all (hasArgument (genericContext (BoundGeneric name args parent))) (parameters T)
   \<Longrightarrow> \<exists>resolved. resolveFields decode (BoundGeneric name args parent) entries = Inr resolved"
proof (induction entries)
  case Nil
  then show ?case by simp
next
  case (Cons field entries)
  obtain fieldName mangledTypeName where field: "field = (fieldName, mangledTypeName)"
    by (cases field)
  from Cons.prems field obtain T where T: "decode mangledTypeName = Some T"
    and bound: "list_all (hasArgument (genericContext (BoundGeneric name args parent)))
        (parameters T)"
    by auto
  from bound obtain T'
    where "subst (genericContext (BoundGeneric name args parent)) T = Some T'"
    using subst_defined by blast
  moreover from Cons obtain rest
    where "resolveFields decode (BoundGeneric name args parent) entries = Inr rest"
    by auto
  ultimately show ?case
    using T field by simp
qed

lemma argumentAt_innermost:
  "unat depth + 1 = length (genericContext (BoundGeneric name args parent))
   \<Longrightarrow> unat index < length args
   \<Longrightarrow> argumentAt (genericContext (BoundGeneric name args parent)) depth index
       = Some (args ! unat index)"
  by (simp add: argumentAt_def nth_append)

text \<open>
  C1. Let \<open>TR\<close> be a \<open>BoundGeneric\<close> with argument list \<open>args\<close> and \<open>FD\<close> a field descriptor
  for its nominal name. If every field type of \<open>FD\<close> decodes, and every generic parameter
  that occurs in a decoded field type has an argument in the generic context that \<open>TR\<close>
  establishes, then \<^verbatim>\<open>getFieldTypeRefs\<close> returns one pair for each field of \<open>FD\<close>, in
  the order of declaration: the name of the field, and the decoded type of the field with
  every generic parameter replaced by the argument at its coordinate. No result of the
  query is of another form: whenever it returns pairs, they are these. The argument list
  \<open>args\<close> is the innermost level of the context: a coordinate whose depth is that level
  and whose index is within \<open>args\<close> addresses the argument of \<open>args\<close> at the index, and
  for a \<open>TR\<close> with no parent \<open>args\<close> is the whole context, addressed by depth 0.
\<close>

theorem getFieldTypeRefs_substitutes:
  assumes "TR = BoundGeneric name args parent"
    and "MangledTypeName FD = name"
  shows "((\<forall>field \<in> set (Fields FD).
             \<exists>T. decode (snd field) = Some T
               \<and> list_all (hasArgument (genericContext TR)) (parameters T))
          \<longrightarrow> (\<exists>resolved. getFieldTypeRefs decode TR FD = Inr resolved
                \<and> list_all2 (\<lambda>field r. fst r = fst field
                      \<and> (\<exists>T. decode (snd field) = Some T
                            \<and> replaced (genericContext TR) T (snd r)))
                    (Fields FD) resolved))
    \<and> (getFieldTypeRefs decode TR FD = Inr returned
          \<longrightarrow> list_all2 (\<lambda>field r. fst r = fst field
                  \<and> (\<exists>T. decode (snd field) = Some T
                        \<and> replaced (genericContext TR) T (snd r)))
                (Fields FD) returned)
    \<and> (unat depth + 1 = length (genericContext TR) \<longrightarrow> unat index < length args
          \<longrightarrow> argumentAt (genericContext TR) depth index = Some (args ! unat index))
    \<and> (parent = None \<longrightarrow> genericContext TR = [args])"
proof (intro conjI impI)
  assume "\<forall>field \<in> set (Fields FD).
             \<exists>T. decode (snd field) = Some T
               \<and> list_all (hasArgument (genericContext TR)) (parameters T)"
  then obtain resolved where "getFieldTypeRefs decode TR FD = Inr resolved"
    unfolding getFieldTypeRefs_def assms(1) using resolveFields_defined by blast
  moreover from this have "list_all2 (\<lambda>field r. fst r = fst field
                      \<and> (\<exists>T. decode (snd field) = Some T
                            \<and> replaced (genericContext TR) T (snd r)))
                    (Fields FD) resolved"
    unfolding getFieldTypeRefs_def assms(1) by (rule resolveFields_replaced)
  ultimately show "\<exists>resolved. getFieldTypeRefs decode TR FD = Inr resolved
                \<and> list_all2 (\<lambda>field r. fst r = fst field
                      \<and> (\<exists>T. decode (snd field) = Some T
                            \<and> replaced (genericContext TR) T (snd r)))
                    (Fields FD) resolved"
    by blast
next
  assume "getFieldTypeRefs decode TR FD = Inr returned"
  then show "list_all2 (\<lambda>field r. fst r = fst field
                  \<and> (\<exists>T. decode (snd field) = Some T
                        \<and> replaced (genericContext TR) T (snd r)))
                (Fields FD) returned"
    unfolding getFieldTypeRefs_def assms(1) by (rule resolveFields_replaced)
next
  assume "unat depth + 1 = length (genericContext TR)" and "unat index < length args"
  then show "argumentAt (genericContext TR) depth index = Some (args ! unat index)"
    unfolding assms(1) by (rule argumentAt_innermost)
next
  assume "parent = None"
  then show "genericContext TR = [args]"
    by (simp add: assms(1))
qed

text \<open>
  The instance of the specification: for \<^verbatim>\<open>Pair\<close> bound to \<^verbatim>\<open>Int\<close> and \<^verbatim>\<open>String\<close>,
  with fields \<^verbatim>\<open>first\<close> and \<^verbatim>\<open>second\<close> of the types \<open>GenericTypeParameter 0 0\<close> and
  \<open>GenericTypeParameter 0 1\<close>, the result is \<^verbatim>\<open>first\<close> of \<^verbatim>\<open>Int\<close> and \<^verbatim>\<open>second\<close> of
  \<^verbatim>\<open>String\<close>. For \<^verbatim>\<open>Inner\<close> bound to \<^verbatim>\<open>String\<close> inside \<^verbatim>\<open>Outer\<close> bound to
  \<^verbatim>\<open>Int\<close>, the field of type \<open>GenericTypeParameter 1 0\<close> resolves to \<^verbatim>\<open>String\<close> and the
  field of type \<open>GenericTypeParameter 0 0\<close> to \<^verbatim>\<open>Int\<close>.
\<close>

theorem getFieldTypeRefs_substitutes_witness:
  "getFieldTypeRefs pairDecode (BoundGeneric ''Pair'' pairArgs None) pairFields
     = Inr [(''first'', Nominal ''Int'' None), (''second'', Nominal ''String'' None)]
   \<and> getFieldTypeRefs nestedDecode
       (BoundGeneric ''Inner'' [Nominal ''String'' None] (Some outerInt)) innerFields
     = Inr [(''value'', Nominal ''String'' None), (''owner'', Nominal ''Int'' None)]"
proof -
  have name: "MangledTypeName pairFields = ''Pair''"
    by (simp add: pairFields_def)
  have levels: "genericContext (BoundGeneric ''Pair'' pairArgs None) = [pairArgs]"
    using getFieldTypeRefs_substitutes [OF refl name, where args = pairArgs and parent = None]
    by blast
  have decodable: "\<forall>field \<in> set (Fields pairFields).
      \<exists>T. pairDecode (snd field) = Some T
        \<and> list_all (hasArgument (genericContext (BoundGeneric ''Pair'' pairArgs None)))
            (parameters T)"
    unfolding levels
    by (simp add: pairFields_def pairDecode_def hasArgument_def argumentAt_def pairArgs_def)
  from getFieldTypeRefs_substitutes
      [OF refl name, where args = pairArgs and parent = None and decode = pairDecode]
    decodable
  obtain resolved where
    result: "getFieldTypeRefs pairDecode (BoundGeneric ''Pair'' pairArgs None) pairFields
      = Inr resolved"
    and rel: "list_all2 (\<lambda>field r. fst r = fst field
        \<and> (\<exists>T. pairDecode (snd field) = Some T \<and> replaced [pairArgs] T (snd r)))
        (Fields pairFields) resolved"
    unfolding levels by blast
  from rel obtain first second where resolved: "resolved = [first, second]"
    and first: "fst first = ''first''"
      "replaced [pairArgs] (GenericTypeParameter 0 0) (snd first)"
    and second: "fst second = ''second''"
      "replaced [pairArgs] (GenericTypeParameter 0 1) (snd second)"
    by (auto simp: pairFields_def pairDecode_def list_all2_Cons1)
  from first(2) have "snd first = Nominal ''Int'' None"
    by (rule replacedE(1)) (simp add: pairArgs_def argumentAt_def)
  moreover from second(2) have "snd second = Nominal ''String'' None"
    by (rule replacedE(1)) (simp add: pairArgs_def argumentAt_def)
  ultimately have
    "resolved = [(''first'', Nominal ''Int'' None), (''second'', Nominal ''String'' None)]"
    using resolved first(1) second(1) by (simp add: prod_eq_iff)
  with result have pair:
    "getFieldTypeRefs pairDecode (BoundGeneric ''Pair'' pairArgs None) pairFields
     = Inr [(''first'', Nominal ''Int'' None), (''second'', Nominal ''String'' None)]"
    by simp
  have innerName: "MangledTypeName innerFields = ''Inner''"
    by (simp add: innerFields_def)
  have nested: "genericContext
      (BoundGeneric ''Inner'' [Nominal ''String'' None] (Some outerInt))
      = [[Nominal ''Int'' None], [Nominal ''String'' None]]"
    by (simp add: outerInt_def)
  have innerDecodable: "\<forall>field \<in> set (Fields innerFields).
      \<exists>T. nestedDecode (snd field) = Some T
        \<and> list_all (hasArgument (genericContext
              (BoundGeneric ''Inner'' [Nominal ''String'' None] (Some outerInt))))
            (parameters T)"
    unfolding nested
    by (simp add: innerFields_def nestedDecode_def hasArgument_def argumentAt_def)
  from getFieldTypeRefs_substitutes
      [OF refl innerName, where args = "[Nominal ''String'' None]"
        and parent = "Some outerInt" and decode = nestedDecode]
    innerDecodable
  obtain resolved' where
    result': "getFieldTypeRefs nestedDecode
        (BoundGeneric ''Inner'' [Nominal ''String'' None] (Some outerInt)) innerFields
      = Inr resolved'"
    and rel': "list_all2 (\<lambda>field r. fst r = fst field
        \<and> (\<exists>T. nestedDecode (snd field) = Some T
              \<and> replaced [[Nominal ''Int'' None], [Nominal ''String'' None]] T (snd r)))
        (Fields innerFields) resolved'"
    unfolding nested by blast
  from rel' obtain val own where resolved': "resolved' = [val, own]"
    and val: "fst val = ''value''"
      "replaced [[Nominal ''Int'' None], [Nominal ''String'' None]]
         (GenericTypeParameter 1 0) (snd val)"
    and own: "fst own = ''owner''"
      "replaced [[Nominal ''Int'' None], [Nominal ''String'' None]]
         (GenericTypeParameter 0 0) (snd own)"
    by (auto simp: innerFields_def nestedDecode_def list_all2_Cons1)
  from val(2) have "snd val = Nominal ''String'' None"
    by (rule replacedE(1)) (simp add: argumentAt_def)
  moreover from own(2) have "snd own = Nominal ''Int'' None"
    by (rule replacedE(1)) (simp add: argumentAt_def)
  ultimately have
    "resolved' = [(''value'', Nominal ''String'' None), (''owner'', Nominal ''Int'' None)]"
    using resolved' val(1) own(1) by (simp add: prod_eq_iff)
  with result' pair show ?thesis by simp
qed

subsection \<open>Queries depend on the registry and their arguments only\<close>

text \<open>The factory methods only add to the pool, and none but the registration touches the registry.\<close>

lemma TypeRefPool_makeTypeRef:
  "prefix (TypeRefPool B) (TypeRefPool (snd (makeTypeRef TR B)))"
  by (simp add: makeTypeRef_def)

lemma call_TypeRefPool:
  "call c B = Inr B' \<Longrightarrow> prefix (TypeRefPool B) (TypeRefPool B')"
proof (cases c)
  case (CreateNominalType mangledName parent)
  then show "call c B = Inr B' \<Longrightarrow> ?thesis"
    by (auto simp: createNominalType_def TypeRefPool_makeTypeRef split: option.splits)
next
  case (CreateBoundGenericType mangledName args parent)
  then show "call c B = Inr B' \<Longrightarrow> ?thesis"
    by (auto simp: createBoundGenericType_def TypeRefPool_makeTypeRef split: option.splits)
next
  case (CreateProtocolCompositionType protocols)
  then show "call c B = Inr B' \<Longrightarrow> ?thesis"
    by (auto simp: createProtocolCompositionType_def TypeRefPool_makeTypeRef
          split: sum.splits bool.splits)
next
  case (CreateDependentMemberType member base protocol)
  then show "call c B = Inr B' \<Longrightarrow> ?thesis"
    by (auto simp: createDependentMemberType_def TypeRefPool_makeTypeRef
          split: sum.splits bool.splits)
next
  case (AddReflectionInfo I)
  then show "call c B = Inr B' \<Longrightarrow> ?thesis"
    by (auto simp: addReflectionInfo_def)
qed (auto simp: createBuiltinType_def createTupleType_def createFunctionType_def
       createProtocolType_def createExistentialMetatypeType_def createMetatypeType_def
       createGenericTypeParameterType_def createUnownedStorageType_def
       createUnmanagedStorageType_def createWeakStorageType_def getUnnamedObjCClassType_def
       getUnnamedForeignClassType_def getOpaqueType_def TypeRefPool_makeTypeRef)

lemma run_TypeRefPool:
  "run calls B = Inr B' \<Longrightarrow> prefix (TypeRefPool B) (TypeRefPool B')"
proof (induction calls arbitrary: B)
  case Nil
  then show ?case by simp
next
  case (Cons c calls)
  from Cons.prems obtain B1 where c: "call c B = Inr B1" and rest: "run calls B1 = Inr B'"
    by (auto split: sum.splits)
  from c have "prefix (TypeRefPool B) (TypeRefPool B1)"
    by (rule call_TypeRefPool)
  moreover from rest have "prefix (TypeRefPool B1) (TypeRefPool B')"
    by (rule Cons.IH)
  ultimately show ?case
    by (rule prefix_order.trans)
qed

lemma call_keeps_registry:
  "call c B = Inr B' \<Longrightarrow> \<not> isRegistration c \<Longrightarrow> ReflectionInfos B' = ReflectionInfos B"
proof (cases c)
  case (CreateNominalType mangledName parent)
  then show "call c B = Inr B' \<Longrightarrow> ?thesis"
    by (auto simp: createNominalType_def ReflectionInfos_makeTypeRef split: option.splits)
next
  case (CreateBoundGenericType mangledName args parent)
  then show "call c B = Inr B' \<Longrightarrow> ?thesis"
    by (auto simp: createBoundGenericType_def ReflectionInfos_makeTypeRef split: option.splits)
next
  case (CreateProtocolCompositionType protocols)
  then show "call c B = Inr B' \<Longrightarrow> ?thesis"
    by (auto simp: createProtocolCompositionType_def ReflectionInfos_makeTypeRef
          split: sum.splits bool.splits)
next
  case (CreateDependentMemberType member base protocol)
  then show "call c B = Inr B' \<Longrightarrow> ?thesis"
    by (auto simp: createDependentMemberType_def ReflectionInfos_makeTypeRef
          split: sum.splits bool.splits)
next
  case (AddReflectionInfo I)
  then show "\<not> isRegistration c \<Longrightarrow> ?thesis"
    by simp
qed (auto simp: createBuiltinType_def createTupleType_def createFunctionType_def
       createProtocolType_def createExistentialMetatypeType_def createMetatypeType_def
       createGenericTypeParameterType_def createUnownedStorageType_def
       createUnmanagedStorageType_def createWeakStorageType_def getUnnamedObjCClassType_def
       getUnnamedForeignClassType_def getOpaqueType_def ReflectionInfos_makeTypeRef)

lemma run_keeps_registry:
  "run calls B = Inr B' \<Longrightarrow> list_all (\<lambda>c. \<not> isRegistration c) calls
   \<Longrightarrow> ReflectionInfos B' = ReflectionInfos B"
proof (induction calls arbitrary: B)
  case Nil
  then show ?case by simp
next
  case (Cons c calls)
  from Cons.prems obtain B1 where c: "call c B = Inr B1" and rest: "run calls B1 = Inr B'"
    by (auto split: sum.splits)
  from c Cons.prems(2) have "ReflectionInfos B1 = ReflectionInfos B"
    by (simp add: call_keeps_registry)
  moreover from rest Cons.prems(2) have "ReflectionInfos B' = ReflectionInfos B1"
    by (simp add: Cons.IH)
  ultimately show ?case by simp
qed

text \<open>A pointer that designates a structure keeps designating it when the pool grows.\<close>

lemma structures_snoc:
  "structures (pool @ [node])
     = structures pool @ [nodeStructure (designated (structures pool)) node]"
  by (simp add: structures_def)

lemma length_structures: "length (structures pool) = length pool"
  by (induction pool rule: rev_induct) (simp_all add: structures_snoc, simp add: structures_def)

lemma structures_append: "prefix (structures pool) (structures (pool @ added))"
proof (induction added rule: rev_induct)
  case Nil
  then show ?case by simp
next
  case (snoc node added)
  have "prefix (structures (pool @ added)) (structures ((pool @ added) @ [node]))"
    by (simp only: structures_snoc prefixI)
  with snoc show ?case
    by (metis append_assoc prefix_order.trans)
qed

lemma designated_prefix:
  "prefix table table' \<Longrightarrow> designated table p = Some T \<Longrightarrow> designated table' p = Some T"
  by (cases p) (auto simp: prefix_def nth_append split: if_splits)

lemma structureOf_extend:
  assumes "prefix (TypeRefPool B) (TypeRefPool B')" and "structureOf B p = Some T"
  shows "structureOf B' p = Some T"
proof -
  from assms(1) obtain added where "TypeRefPool B' = TypeRefPool B @ added"
    by (auto simp: prefix_def)
  then have "prefix (structures (TypeRefPool B)) (structures (TypeRefPool B'))"
    by (simp add: structures_append)
  then show ?thesis
    using assms(2) unfolding structureOf_def by (rule designated_prefix)
qed

lemma structureOf_nullptr: "structureOf B nullptr = None"
  by (simp add: structureOf_def)

text \<open>The collaborator that builds the resolved type.\<close>

lemma build_registry:
  "buildsThroughFactory build \<Longrightarrow> ReflectionInfos (snd (build T B)) = ReflectionInfos B"
  unfolding buildsThroughFactory_def by (metis run_keeps_registry)

lemma build_pool:
  "buildsThroughFactory build \<Longrightarrow> prefix (TypeRefPool B) (TypeRefPool (snd (build T B)))"
  unfolding buildsThroughFactory_def by (metis run_TypeRefPool)

lemma build_structure:
  "buildsThroughFactory build \<Longrightarrow>
   structureOf (snd (build T B1)) (fst (build T B1))
     = structureOf (snd (build T B2)) (fst (build T B2))"
  unfolding buildsThroughFactory_def by (metis structureOf_nullptr)

text \<open>The three queries on structures read nothing of the builder but the registry.\<close>

lemma queries_read_registry:
  assumes "ReflectionInfos B = ReflectionInfos B'"
  shows "getFieldTypeInfo B TR = getFieldTypeInfo B' TR"
    and "getDependentMemberTypeRef decode B mangledTypeName DependentMemberTR
        = getDependentMemberTypeRef decode B' mangledTypeName DependentMemberTR"
    and "getBuiltinTypeInfo B TR' = getBuiltinTypeInfo B' TR'"
  unfolding getFieldTypeInfo_def getDependentMemberTypeRef_def getBuiltinTypeInfo_def assms
  by simp_all

text \<open>One query.\<close>

lemma ask_registry:
  "buildsThroughFactory build
   \<Longrightarrow> ReflectionInfos (snd (ask decode build q B)) = ReflectionInfos B"
proof (cases q)
  case (GetDependentMemberTypeRef mangledTypeName DependentMemberTR)
  then show "buildsThroughFactory build \<Longrightarrow> ?thesis"
    using build_registry [of build]
    by (auto split: option.splits sum.splits prod.splits) (metis snd_conv)
qed simp_all

lemma ask_pool:
  "buildsThroughFactory build
   \<Longrightarrow> prefix (TypeRefPool B) (TypeRefPool (snd (ask decode build q B)))"
proof (cases q)
  case (GetDependentMemberTypeRef mangledTypeName DependentMemberTR)
  then show "buildsThroughFactory build \<Longrightarrow> ?thesis"
    using build_pool [of build]
    by (auto split: option.splits sum.splits prod.splits) (metis snd_conv)
qed simp_all

lemma ask_outcome:
  assumes build: "buildsThroughFactory build"
    and registry: "ReflectionInfos B1 = ReflectionInfos B2"
    and same: "structureOf B1 (subject q) = structureOf B2 (subject q)"
  shows "outcome (ask decode build q B1) = outcome (ask decode build q B2)"
proof (cases q)
  case (GetFieldTypeInfo TR)
  with same queries_read_registry(1) [OF registry] show ?thesis
    by (simp split: option.splits)
next
  case (GetBuiltinTypeInfo TR)
  with same queries_read_registry(3) [OF registry] show ?thesis
    by (simp split: option.splits)
next
  case q: (GetDependentMemberTypeRef mangledTypeName DependentMemberTR)
  show ?thesis
  proof (cases "structureOf B1 DependentMemberTR")
    case None
    with same q show ?thesis by simp
  next
    case (Some T)
    with same q have T2: "structureOf B2 DependentMemberTR = Some T"
      by simp
    have answer: "getDependentMemberTypeRef decode B1 mangledTypeName T
        = getDependentMemberTypeRef decode B2 mangledTypeName T"
      by (rule queries_read_registry(2) [OF registry])
    show ?thesis
    proof (cases "getDependentMemberTypeRef decode B2 mangledTypeName T")
      case (Inl e)
      with answer Some T2 q show ?thesis by simp
    next
      case (Inr resolved)
      have "structureOf (snd (build resolved B1)) (fst (build resolved B1))
          = structureOf (snd (build resolved B2)) (fst (build resolved B2))"
        using build by (rule build_structure)
      with answer Inr Some T2 q show ?thesis
        by (simp add: case_prod_unfold)
    qed
  qed
qed

text \<open>A sequence of queries.\<close>

lemma askAll_registry:
  "buildsThroughFactory build
   \<Longrightarrow> ReflectionInfos (snd (askAll decode build qs B)) = ReflectionInfos B"
proof (induction qs arbitrary: B)
  case Nil
  then show ?case by simp
next
  case (Cons q qs)
  from Cons.prems have "ReflectionInfos (snd (ask decode build q B)) = ReflectionInfos B"
    by (rule ask_registry)
  moreover from Cons
  have "ReflectionInfos (snd (askAll decode build qs (snd (ask decode build q B))))
      = ReflectionInfos (snd (ask decode build q B))"
    by simp
  ultimately show ?case
    by (simp add: case_prod_unfold)
qed

lemma askAll_pool:
  "buildsThroughFactory build
   \<Longrightarrow> prefix (TypeRefPool B) (TypeRefPool (snd (askAll decode build qs B)))"
proof (induction qs arbitrary: B)
  case Nil
  then show ?case by simp
next
  case (Cons q qs)
  from Cons.prems
  have "prefix (TypeRefPool B) (TypeRefPool (snd (ask decode build q B)))"
    by (rule ask_pool)
  moreover from Cons
  have "prefix (TypeRefPool (snd (ask decode build q B)))
      (TypeRefPool (snd (askAll decode build qs (snd (ask decode build q B)))))"
    by simp
  ultimately show ?case
    by (simp add: case_prod_unfold)
qed

text \<open>
  C8. \<^verbatim>\<open>getFieldTypeInfo\<close>, \<^verbatim>\<open>getDependentMemberTypeRef\<close> and
  \<^verbatim>\<open>getBuiltinTypeInfo\<close> carry no state across calls. A query leaves the registry as
  it was, and so does any sequence of queries; what a query changes of the builder is the
  pool, where it builds the type it resolves. On two builders with the same registry, a
  query whose pointer designates the same structure on both says the same: the same
  descriptor or error, or a pointer to the same structure. So a query asked after any
  number of earlier queries, in any order, says what it says when asked first. (The
  collaborator that builds resolved types is assumed to work through the factory methods.)
\<close>

theorem resolver_queries_pure:
  assumes "buildsThroughFactory build"
  shows "(ReflectionInfos B' = ReflectionInfos B'' \<longrightarrow>
            structureOf B' (subject q) = structureOf B'' (subject q) \<longrightarrow>
            outcome (ask decode build q B') = outcome (ask decode build q B''))
    \<and> (structureOf B (subject q) \<noteq> None \<longrightarrow>
          outcome (ask decode build q (snd (askAll decode build earlier B)))
            = outcome (ask decode build q B))
    \<and> ReflectionInfos (snd (askAll decode build earlier B)) = ReflectionInfos B
    \<and> ReflectionInfos (snd (ask decode build q B)) = ReflectionInfos B"
proof (intro conjI impI)
  assume "ReflectionInfos B' = ReflectionInfos B''"
    and "structureOf B' (subject q) = structureOf B'' (subject q)"
  with assms show "outcome (ask decode build q B') = outcome (ask decode build q B'')"
    by (rule ask_outcome)
next
  assume "structureOf B (subject q) \<noteq> None"
  then obtain T where T: "structureOf B (subject q) = Some T"
    by blast
  from assms have "prefix (TypeRefPool B) (TypeRefPool (snd (askAll decode build earlier B)))"
    by (rule askAll_pool)
  then have "structureOf (snd (askAll decode build earlier B)) (subject q) = Some T"
    using T by (rule structureOf_extend)
  with T have "structureOf (snd (askAll decode build earlier B)) (subject q)
      = structureOf B (subject q)"
    by simp
  moreover from assms
  have "ReflectionInfos (snd (askAll decode build earlier B)) = ReflectionInfos B"
    by (rule askAll_registry)
  ultimately show "outcome (ask decode build q (snd (askAll decode build earlier B)))
      = outcome (ask decode build q B)"
    using assms by (intro ask_outcome)
next
  from assms show "ReflectionInfos (snd (askAll decode build earlier B)) = ReflectionInfos B"
    by (rule askAll_registry)
next
  from assms show "ReflectionInfos (snd (ask decode build q B)) = ReflectionInfos B"
    by (rule ask_registry)
qed

lemma exampleBuild_through_factory: "buildsThroughFactory exampleBuild"
  unfolding buildsThroughFactory_def
proof (intro allI conjI)
  fix T B
  show "\<exists>calls. list_all (\<lambda>c. \<not> isRegistration c) calls
      \<and> run calls B = Inr (snd (exampleBuild T B))"
  proof (cases T)
    case (Builtin mangledName)
    then have "list_all (\<lambda>c. \<not> isRegistration c) [CreateBuiltinType mangledName]
        \<and> run [CreateBuiltinType mangledName] B = Inr (snd (exampleBuild T B))"
      by (simp add: exampleBuild_def)
    then show ?thesis by blast
  next
    case (Protocol moduleName protocolName)
    then have "list_all (\<lambda>c. \<not> isRegistration c) [CreateProtocolType moduleName protocolName]
        \<and> run [CreateProtocolType moduleName protocolName] B = Inr (snd (exampleBuild T B))"
      by (simp add: exampleBuild_def)
    then show ?thesis by blast
  qed (auto simp: exampleBuild_def intro: exI [of _ "[]"])
next
  fix T
  show "(\<forall>B. structureOf (snd (exampleBuild T B)) (fst (exampleBuild T B)) = Some T)
      \<or> (\<forall>B. fst (exampleBuild T B) = nullptr)"
    by (cases T)
       (simp_all add: exampleBuild_def createBuiltinType_def createProtocolType_def
          makeTypeRef_def structureOf_def structures_snoc length_structures nth_append)
qed

text \<open>
  On \<open>memberBuilder\<close>, the query for \<^verbatim>\<open>Element\<close> of \<^verbatim>\<open>Container\<close> yields a pointer to a
  new node, of structure \<open>Builtin ''Int''\<close>. Asked again after three other queries, two
  of which have built nodes, it yields another pointer, of the same structure; the
  registry is as it was.
\<close>

theorem resolver_queries_pure_witness:
  "outcome (ask exampleDecode exampleBuild (GetDependentMemberTypeRef ''Container'' (Pooled 2))
      (snd (askAll exampleDecode exampleBuild
        [GetDependentMemberTypeRef ''Container'' (Pooled 2), GetFieldTypeInfo (Pooled 0),
         GetDependentMemberTypeRef ''Container'' (Pooled 2)] memberBuilder)))
     = TypeIs (Inr (Some (Builtin ''Int'')))
   \<and> ask exampleDecode exampleBuild (GetDependentMemberTypeRef ''Container'' (Pooled 2))
       memberBuilder
     = (DependentMemberType (Inr (Pooled 3)),
        memberBuilder\<lparr>TypeRefPool := TypeRefPool memberBuilder @ [BuiltinTypeRef ''Int'']\<rparr>)
   \<and> TypeRefPool (snd (askAll exampleDecode exampleBuild
        [GetDependentMemberTypeRef ''Container'' (Pooled 2), GetFieldTypeInfo (Pooled 0),
         GetDependentMemberTypeRef ''Container'' (Pooled 2)] memberBuilder))
     = TypeRefPool memberBuilder @ [BuiltinTypeRef ''Int'', BuiltinTypeRef ''Int'']
   \<and> ReflectionInfos (snd (askAll exampleDecode exampleBuild
        [GetDependentMemberTypeRef ''Container'' (Pooled 2), GetFieldTypeInfo (Pooled 0),
         GetDependentMemberTypeRef ''Container'' (Pooled 2)] memberBuilder))
     = [containerImage]"
proof -
  let ?q = "GetDependentMemberTypeRef ''Container'' (Pooled 2)"
  let ?member = "DependentMember ''Element'' (Nominal ''Container'' None)
    (Protocol '''' ''Sequence'')"
  let ?B1 = "memberBuilder\<lparr>TypeRefPool := TypeRefPool memberBuilder @ [BuiltinTypeRef ''Int'']\<rparr>"
  let ?B2 = "?B1\<lparr>TypeRefPool := TypeRefPool ?B1 @ [BuiltinTypeRef ''Int'']\<rparr>"
  have designates: "structureOf memberBuilder (Pooled 2) = Some ?member"
    by (simp add: structureOf_def structures_def memberBuilder_def)
  have designates1: "structureOf ?B1 (Pooled 2) = Some ?member"
    by (simp add: structureOf_def structures_def memberBuilder_def)
  have resolves: "getDependentMemberTypeRef exampleDecode B ''Container'' ?member
      = Inr (Builtin ''Int'')"
    if "ReflectionInfos B = [containerImage]" for B
    using that
    by (simp add: getDependentMemberTypeRef_def containerImage_def containerSequence_def
          matchesConformance_def exampleDecode_def)
  have built: "exampleBuild (Builtin ''Int'') B
      = (Pooled (length (TypeRefPool B)), B\<lparr>TypeRefPool := TypeRefPool B @ [BuiltinTypeRef ''Int'']\<rparr>)"
    for B
    by (simp add: exampleBuild_def createBuiltinType_def makeTypeRef_def)
  have registry0: "ReflectionInfos memberBuilder = [containerImage]"
    by (simp add: memberBuilder_def)
  have size0: "length (TypeRefPool memberBuilder) = 3"
    by (simp add: memberBuilder_def)
  have first: "ask exampleDecode exampleBuild ?q memberBuilder
      = (DependentMemberType (Inr (Pooled 3)), ?B1)"
    by (simp add: designates resolves registry0 built size0)
  have second: "ask exampleDecode exampleBuild (GetFieldTypeInfo (Pooled 0)) ?B1
      = (FieldTypeInfo (Inl LookupMiss), ?B1)"
    by (simp add: structureOf_def structures_def memberBuilder_def getFieldTypeInfo_def
          containerImage_def)
  have third: "ask exampleDecode exampleBuild ?q ?B1
      = (DependentMemberType (Inr (Pooled 4)), ?B2)"
    by (simp add: designates1 resolves registry0 built size0)
  have all: "askAll exampleDecode exampleBuild [?q, GetFieldTypeInfo (Pooled 0), ?q]
      memberBuilder
      = ([DependentMemberType (Inr (Pooled 3)), FieldTypeInfo (Inl LookupMiss),
          DependentMemberType (Inr (Pooled 4))], ?B2)"
    by (simp add: first second third del: ask.simps)
  have told: "outcome (ask exampleDecode exampleBuild ?q memberBuilder)
      = TypeIs (Inr (Some (Builtin ''Int'')))"
    unfolding first
    by (simp add: structureOf_def structures_snoc length_structures nth_append size0)
  have valid: "structureOf memberBuilder (subject ?q) \<noteq> None"
    by (simp add: designates)
  from resolver_queries_pure [OF exampleBuild_through_factory,
      where B = memberBuilder and B' = memberBuilder and B'' = memberBuilder
        and decode = exampleDecode and q = ?q
        and earlier = "[?q, GetFieldTypeInfo (Pooled 0), ?q]"]
    valid told
  have later: "outcome (ask exampleDecode exampleBuild ?q
      (snd (askAll exampleDecode exampleBuild [?q, GetFieldTypeInfo (Pooled 0), ?q]
        memberBuilder)))
      = TypeIs (Inr (Some (Builtin ''Int'')))"
    and registry: "ReflectionInfos
      (snd (askAll exampleDecode exampleBuild [?q, GetFieldTypeInfo (Pooled 0), ?q]
        memberBuilder))
      = [containerImage]"
    by (simp_all add: registry0)
  have pool: "TypeRefPool
      (snd (askAll exampleDecode exampleBuild [?q, GetFieldTypeInfo (Pooled 0), ?q]
        memberBuilder))
      = TypeRefPool memberBuilder @ [BuiltinTypeRef ''Int'', BuiltinTypeRef ''Int'']"
    unfolding all by simp
  show ?thesis
    by (intro conjI later first pool registry)
qed

end
